theory Spec2Isabelle
  imports Main
begin

section \<open>JavaScript values and the built-in operations the Header tool uses\<close>

text \<open>
  The Header tool is untyped JavaScript: the data it is handed can be any value. The values
  modelled are the ones saved block data can hold: \<open>undefined\<close> (also the result of reading
  a property that is absent), \<open>null\<close>, booleans, numbers, strings and plain objects (a list
  of properties, read by name). A number is modelled by its integral value (\<open>JNum\<close>) or is
  \<open>NaN\<close>; \<open>-0\<close> is \<open>JNum 0\<close> (both are falsy and both print as \<open>0\<close>). Fractions
  and infinities are outside the model. A string is a list of characters, one \<open>char\<close>
  per code unit below 256.
\<close>

datatype jsval =
    JUndefined
  | JNull
  | JBool bool
  | JNum int
  | JNaN
  | JStr string
  | JObj "(string \<times> jsval) list"

datatype error = TypeError

text \<open>\<open>typeof v\<close>: note that \<open>typeof null\<close> is \<open>'object'\<close>.\<close>

fun typeof :: "jsval \<Rightarrow> string" where
  "typeof JUndefined = ''undefined''"
| "typeof JNull = ''object''"
| "typeof (JBool b) = ''boolean''"
| "typeof (JNum n) = ''number''"
| "typeof JNaN = ''number''"
| "typeof (JStr s) = ''string''"
| "typeof (JObj fs) = ''object''"

text \<open>
  \<open>v.name\<close>: reading a property of \<open>undefined\<close> or \<open>null\<close> throws a TypeError; a
  primitive has none of the properties read here (\<open>text\<close>, \<open>level\<close>, \<open>align\<close>), and an
  object yields the property's value or \<open>undefined\<close>.
\<close>

definition field :: "(string \<times> jsval) list \<Rightarrow> string \<Rightarrow> jsval" where
  "field fs name = (case map_of fs name of None \<Rightarrow> JUndefined | Some v \<Rightarrow> v)"

fun getprop :: "jsval \<Rightarrow> string \<Rightarrow> error + jsval" where
  "getprop JUndefined name = Inl TypeError"
| "getprop JNull name = Inl TypeError"
| "getprop (JObj fs) name = Inr (field fs name)"
| "getprop v name = Inr JUndefined"

text \<open>Truthiness, and \<open>a || b\<close>.\<close>

fun truthy :: "jsval \<Rightarrow> bool" where
  "truthy JUndefined = False"
| "truthy JNull = False"
| "truthy (JBool b) = b"
| "truthy (JNum n) = (n \<noteq> 0)"
| "truthy JNaN = False"
| "truthy (JStr s) = (s \<noteq> [])"
| "truthy (JObj fs) = True"

definition js_or :: "jsval \<Rightarrow> jsval \<Rightarrow> jsval" where
  "js_or a b = (if truthy a then a else b)"

text \<open>
  \<open>a === b\<close> where one side is a number or a string, as in every comparison of the tool:
  equal values of the same type, and \<open>NaN\<close> equal to nothing. (Two objects would compare
  by identity, which values do not carry; the tool never compares two objects.)
\<close>

fun strict_eq :: "jsval \<Rightarrow> jsval \<Rightarrow> bool" where
  "strict_eq JNaN b = False"
| "strict_eq (JObj fs) b = False"
| "strict_eq a b = (a = b)"

subsection \<open>Number to string\<close>

definition digitChar :: "nat \<Rightarrow> char" where
  "digitChar d = ''0123456789'' ! d"

fun digits :: "nat \<Rightarrow> string" where
  "digits n = (if n < 10 then [digitChar n] else digits (n div 10) @ [digitChar (n mod 10)])"

definition stripTrailingZeros :: "string \<Rightarrow> string" where
  "stripTrailingZeros s = rev (dropWhile (\<lambda>c. c = CHR ''0'') (rev s))"

text \<open>
  \<open>Number.prototype.toString\<close> on an integral value: its decimal digits below \<open>10^21\<close>, and
  exponent notation (\<open>1e+21\<close>, \<open>1.5e+21\<close>) from there on. In exponent notation the
  digits given here are all the digits of the integer; JavaScript prints the fewest digits
  that identify the double, which can round the last of them. Nothing below depends on more
  than the shape: one digit, then \<open>.\<close> or \<open>e\<close>.
\<close>

definition numToString :: "int \<Rightarrow> string" where
  "numToString n =
     (let sign = (if n < 0 then ''-'' else '''');
          ds = digits (nat \<bar>n\<bar>)
      in if \<bar>n\<bar> < 10 ^ 21 then sign @ ds
         else (let frac = stripTrailingZeros (tl ds)
               in sign @ [hd ds] @ (if frac = [] then [] else CHR ''.'' # frac)
                    @ ''e+'' @ digits (length ds - 1)))"

text \<open>\<open>String(v)\<close>; a plain object prints as \<open>[object Object]\<close>.\<close>

fun toString :: "jsval \<Rightarrow> string" where
  "toString JUndefined = ''undefined''"
| "toString JNull = ''null''"
| "toString (JBool b) = (if b then ''true'' else ''false'')"
| "toString (JNum n) = numToString n"
| "toString JNaN = ''NaN''"
| "toString (JStr s) = s"
| "toString (JObj fs) = ''[object Object]''"

subsection \<open>\<open>parseInt\<close> and \<open>trim\<close>\<close>

text \<open>White space: tab, line feed, vertical tab, form feed, carriage return, space, no-break space.\<close>

definition isWhiteSpace :: "char \<Rightarrow> bool" where
  "isWhiteSpace c = ((of_char c :: nat) \<in> {9, 10, 11, 12, 13, 32, 160})"

definition trim :: "string \<Rightarrow> string" where
  "trim s = rev (dropWhile isWhiteSpace (rev (dropWhile isWhiteSpace s)))"

text \<open>The value of a character as a digit of radix \<open>r\<close> (10 or 16), if it is one.\<close>

definition digitValue :: "nat \<Rightarrow> char \<Rightarrow> nat option" where
  "digitValue r c =
     (let k = (of_char c :: nat)
      in if 48 \<le> k \<and> k \<le> 57 then Some (k - 48)
         else if r = 16 \<and> 97 \<le> k \<and> k \<le> 102 then Some (k - 87)
         else if r = 16 \<and> 65 \<le> k \<and> k \<le> 70 then Some (k - 55)
         else None)"

definition radixValue :: "nat \<Rightarrow> string \<Rightarrow> nat" where
  "radixValue r z = foldl (\<lambda>acc c. acc * r + the (digitValue r c)) 0 z"

text \<open>
  \<open>parseInt(v)\<close> with no radix: the argument is converted to a string; leading white space
  and one sign are dropped; a prefix \<open>0x\<close> or \<open>0X\<close> selects radix 16; the longest run of
  digits is read, and the result is \<open>NaN\<close> when there is none. (The result is the exact
  integer; a double rounds it beyond \<open>2^53\<close>.)
\<close>

definition parseInt :: "jsval \<Rightarrow> jsval" where
  "parseInt v =
     (let s = dropWhile isWhiteSpace (toString v);
          sign = (if take 1 s = ''-'' then - 1 else 1 :: int);
          s1 = (if take 1 s = ''-'' \<or> take 1 s = ''+'' then drop 1 s else s);
          hex = (take 2 s1 = ''0x'' \<or> take 2 s1 = ''0X'');
          r = (if hex then 16 else 10);
          s2 = (if hex then drop 2 s1 else s1);
          z = takeWhile (\<lambda>c. digitValue r c \<noteq> None) s2
      in if z = [] then JNaN else JNum (sign * int (radixValue r z)))"




text \<open>
  Sequencing of steps that can throw: the first error ends the call, and the call then
  returns the error only (what the instance holds after a throw is not modelled).
\<close>

definition andThen :: "error + 'a \<Rightarrow> ('a \<Rightarrow> error + 'b) \<Rightarrow> error + 'b" where
  "andThen m f = (case m of Inl e \<Rightarrow> Inl e | Inr v \<Rightarrow> f v)"

section \<open>The Header tool of \<open>src/index.js\<close>\<close>

subsection \<open>Data\<close>

text \<open>
  \<open>HeaderData\<close> is the tool's input and output format \<open>{text, level, align}\<close>. The fields
  hold whatever value the code puts there. \<open>obj_of\<close> is the same data seen as a JavaScript
  object, for where a record goes back into a function that takes any value.
\<close>

record HeaderData =
  data_text :: jsval
  data_level :: jsval
  data_align :: jsval

definition obj_of :: "HeaderData \<Rightarrow> jsval" where
  "obj_of r = JObj [(''text'', data_text r), (''level'', data_level r), (''align'', data_align r)]"

text \<open>
  The registries: the getters \<open>levels\<close> and \<open>align\<close> (here \<open>align_list\<close>, as the entries
  have a property \<open>align\<close> themselves). The icons (\<open>svg\<close>) are left out: nothing reads them
  but the button's markup.
\<close>

record level =
  number :: int
  tag :: string

record alignItem =
  align :: string

definition levels :: "level list" where
  "levels = [\<lparr>number = 1, tag = ''H1''\<rparr>, \<lparr>number = 2, tag = ''H2''\<rparr>, \<lparr>number = 3, tag = ''H3''\<rparr>]"

definition align_list :: "alignItem list" where
  "align_list = [\<lparr>align = ''left''\<rparr>, \<lparr>align = ''center''\<rparr>, \<lparr>align = ''right''\<rparr>]"

definition defaultLevel :: level where
  "defaultLevel = levels ! 1"

definition defaultAlign :: alignItem where
  "defaultAlign = align_list ! 0"

text \<open>
  The heading element, as far as the tool touches it. \<open>innerHTML\<close> is kept as the string
  assigned to it (a value that is not a string is converted on assignment), the style as the
  value assigned; \<open>attached\<close> says whether the element has a \<open>parentNode\<close>. The browser's
  own parsing of markup and of style values belongs to the host and is not modelled.
\<close>

record element =
  tagName :: string
  innerHTML :: string
  className :: string
  style_textAlign :: jsval
  contentEditable :: string
  dataset_placeholder :: string
  attached :: bool

text \<open>
  A settings button: whether it carries the class \<open>settingsButtonActive\<close>, and its
  \<open>dataset\<close> (a property of \<open>dataset\<close> holds a string or is absent).
\<close>

record button =
  active :: bool
  dataset_level :: "string option"
  dataset_align :: "string option"
  button_textAlign :: jsval

record HeaderConfig =
  placeholder :: jsval

text \<open>
  The instance: \<open>priv_\<close> stands for the leading underscore of \<open>_CSS\<close>, \<open>_settings\<close>,
  \<open>_data\<close> and \<open>_element\<close>. Of \<open>_CSS\<close> only \<open>align\<close> varies.
\<close>

record Header =
  priv_CSS_align :: jsval
  priv_settings :: HeaderConfig
  priv_data :: HeaderData
  settingsButtons :: "button list"
  priv_element :: element

subsection \<open>Operations\<close>

definition normalizeData :: "jsval \<Rightarrow> error + HeaderData" where
  "normalizeData data =
     (let data = (if typeof data \<noteq> ''object'' then JObj [] else data)
      in andThen (getprop data ''text'') (\<lambda>t.
         andThen (getprop data ''level'') (\<lambda>l.
         andThen (getprop data ''align'') (\<lambda>a.
           Inr \<lparr>data_text = js_or t (JStr ''''),
                data_level = js_or (parseInt l) (JNum (number defaultLevel)),
                data_align = js_or a (JStr (align defaultAlign))\<rparr>))))"

definition currentLevel :: "Header \<Rightarrow> level" where
  "currentLevel s =
     (case find (\<lambda>levelItem. strict_eq (JNum (number levelItem)) (data_level (priv_data s))) levels of
        None \<Rightarrow> defaultLevel
      | Some l \<Rightarrow> l)"

definition currentAlign :: "Header \<Rightarrow> alignItem" where
  "currentAlign s =
     (case find (\<lambda>item. strict_eq (JStr (align item)) (data_align (priv_data s))) align_list of
        None \<Rightarrow> defaultAlign
      | Some a \<Rightarrow> a)"

definition getTag :: "Header \<Rightarrow> element" where
  "getTag s =
     \<lparr>tagName = tag (currentLevel s),
      innerHTML = toString (js_or (data_text (priv_data s)) (JStr '''')),
      className = ''ce-header'',
      style_textAlign = priv_CSS_align s,
      contentEditable = ''true'',
      dataset_placeholder = toString (js_or (placeholder (priv_settings s)) (JStr '''')),
      attached = False\<rparr>"

text \<open>
  The constructor. \<open>_element\<close> is assigned last, from \<open>getTag\<close>, which does not read it;
  until then the field holds a blank element.
\<close>

definition blank :: element where
  "blank = \<lparr>tagName = '''', innerHTML = '''', className = '''', style_textAlign = JUndefined,
            contentEditable = '''', dataset_placeholder = '''', attached = False\<rparr>"

definition constructor :: "jsval \<Rightarrow> HeaderConfig \<Rightarrow> error + Header" where
  "constructor data config =
     andThen (getprop data ''align'') (\<lambda>a.
     andThen (normalizeData data) (\<lambda>nd.
       (let s = \<lparr>priv_CSS_align = js_or a (JStr ''left''), priv_settings = config,
                  priv_data = nd, settingsButtons = [], priv_element = blank\<rparr>
        in Inr (s\<lparr>priv_element := getTag s\<rparr>))))"


text \<open>
  The getter \<open>data\<close> writes the live text and the looked-up level and alignment into
  \<open>_data\<close> and returns it.
\<close>

definition get_data :: "Header \<Rightarrow> HeaderData \<times> Header" where
  "get_data s =
     (let s1 = s\<lparr>priv_data := (priv_data s)\<lparr>data_text := JStr (innerHTML (priv_element s))\<rparr>\<rparr>;
          s2 = s1\<lparr>priv_data := (priv_data s1)\<lparr>data_level := JNum (number (currentLevel s1))\<rparr>\<rparr>;
          s3 = s2\<lparr>priv_data := (priv_data s2)\<lparr>data_align := JStr (align (currentAlign s2))\<rparr>\<rparr>
      in (priv_data s3, s3))"

text \<open>
  The setter \<open>data\<close>. \<open>replaceChild\<close> puts the new element where the old one was, so it is
  attached.
\<close>

definition set_data :: "Header \<Rightarrow> jsval \<Rightarrow> error + Header" where
  "set_data s data =
     andThen (normalizeData data) (\<lambda>nd.
     (let s1 = s\<lparr>priv_data := nd\<rparr>
      in andThen (getprop data ''level'') (\<lambda>l.
         andThen (if l \<noteq> JUndefined \<and> attached (priv_element s1)
                  then andThen (getprop data ''align'') (\<lambda>a.
                         (let newHeader = getTag s1;
                              newHeader = newHeader\<lparr>innerHTML := innerHTML (priv_element s1)\<rparr>;
                              newHeader = newHeader\<lparr>style_textAlign := a\<rparr>;
                              newHeader = newHeader\<lparr>attached := True\<rparr>
                          in Inr (s1\<lparr>priv_element := newHeader\<rparr>)))
                  else Inr s1) (\<lambda>s2.
         andThen (getprop data ''text'') (\<lambda>t.
           Inr (if t \<noteq> JUndefined
                then s2\<lparr>priv_element := (priv_element s2)
                        \<lparr>innerHTML := toString (js_or (data_text (priv_data s2)) (JStr ''''))\<rparr>\<rparr>
                else s2))))))"

text \<open>
  \<open>renderSettings\<close> makes one button per level and per alignment, appends them to the holder
  and pushes them on \<open>settingsButtons\<close>. The holder and the list share the buttons, so the
  holder is given by the positions of its buttons in the list. \<open>setLevel\<close> and \<open>setAlign\<close>
  store the choice through the setter and then go through \<open>settingsButtons\<close>:
  \<open>highlightLevel\<close> and \<open>highlightAlign\<close> are what they do to one button
  (\<open>classList.toggle\<close> with a second argument sets the class when it is true and removes it
  otherwise).
\<close>

definition levelButton :: "Header \<Rightarrow> level \<Rightarrow> button" where
  "levelButton s level =
     \<lparr>active = (number (currentLevel s) = number level),
      dataset_level = Some (toString (JNum (number level))),
      dataset_align = None,
      button_textAlign = priv_CSS_align s\<rparr>"

definition alignButton :: "Header \<Rightarrow> alignItem \<Rightarrow> button" where
  "alignButton s item =
     \<lparr>active = (align (currentAlign s) = align item),
      dataset_level = None,
      dataset_align = Some (align item),
      button_textAlign = JUndefined\<rparr>"

definition renderSettings :: "Header \<Rightarrow> nat list \<times> Header" where
  "renderSettings s =
     (let made = map (levelButton s) levels @ map (alignButton s) align_list;
          n = length (settingsButtons s)
      in ([n ..< n + length made], s\<lparr>settingsButtons := settingsButtons s @ made\<rparr>))"

definition highlightLevel :: "jsval \<Rightarrow> button \<Rightarrow> button" where
  "highlightLevel level button =
     (case dataset_level button of
        None \<Rightarrow> button
      | Some dl \<Rightarrow>
          if dl \<noteq> '''' then button\<lparr>active := strict_eq (parseInt (JStr dl)) level\<rparr>
          else button)"

definition setLevel :: "Header \<Rightarrow> jsval \<Rightarrow> error + Header" where
  "setLevel s level =
     (let (d1, s1) = get_data s;
          (d2, s2) = get_data s1
      in andThen (set_data s2 (JObj [(''level'', level), (''align'', data_align d1), (''text'', data_text d2)]))
           (\<lambda>s3. Inr (s3\<lparr>settingsButtons := map (highlightLevel level) (settingsButtons s3)\<rparr>)))"

definition highlightAlign :: "jsval \<Rightarrow> button \<Rightarrow> button" where
  "highlightAlign a button =
     (case dataset_align button of
        None \<Rightarrow> button
      | Some da \<Rightarrow>
          if da \<noteq> '''' then button\<lparr>active := strict_eq (JStr da) a\<rparr>
          else button)"

definition setAlign :: "Header \<Rightarrow> jsval \<Rightarrow> error + Header" where
  "setAlign s a =
     (let (d1, s1) = get_data s;
          (d2, s2) = get_data s1
      in andThen (set_data s2 (JObj [(''align'', a), (''level'', data_level d1), (''text'', data_text d2)]))
           (\<lambda>s3. Inr (s3\<lparr>settingsButtons := map (highlightAlign a) (settingsButtons s3)\<rparr>)))"


text \<open>
  \<open>blockData.text.trim()\<close> throws unless \<open>text\<close> is a string: \<open>undefined\<close> and \<open>null\<close> have
  no properties, and other values have no method \<open>trim\<close>.
\<close>

definition validate :: "jsval \<Rightarrow> error + bool" where
  "validate blockData =
     andThen (getprop blockData ''text'') (\<lambda>t.
       (case t of JStr str \<Rightarrow> Inr (trim str \<noteq> '''') | _ \<Rightarrow> Inl TypeError))"

definition save :: "Header \<Rightarrow> element \<Rightarrow> HeaderData" where
  "save s toolsContent =
     \<lparr>data_text = JStr (innerHTML toolsContent),
      data_level = JNum (number (currentLevel s)),
      data_align = JStr (align (currentAlign s))\<rparr>"

text \<open>\<open>onPaste\<close>: \<open>content\<close> is the pasted element, \<open>event.detail.data\<close>.\<close>

definition onPaste :: "Header \<Rightarrow> element \<Rightarrow> error + Header" where
  "onPaste s content =
     (let level = (if tagName content = ''H1'' then 1
                   else if tagName content = ''H3'' then 3
                   else 2);
          align = ''left''
      in set_data s (JObj [(''level'', JNum level), (''align'', JStr align),
                           (''text'', JStr (innerHTML content))]))"

section \<open>The Header tool of \<open>src/unnamed/part_000\<close>\<close>

text \<open>
  The second source file is the same class without alignment: its data is \<open>{text, level}\<close>,
  its levels are H2 to H4, and \<open>defaultLevel\<close> is \<open>levels[2]\<close>. Its definitions carry the
  suffix \<open>_p0\<close>. Elements and buttons are of the types above; this file never assigns an
  element's style or a button's \<open>dataset.align\<close>.
\<close>

record HeaderData_p0 =
  data_text_p0 :: jsval
  data_level_p0 :: jsval


definition levels_p0 :: "level list" where
  "levels_p0 = [\<lparr>number = 2, tag = ''H2''\<rparr>, \<lparr>number = 3, tag = ''H3''\<rparr>, \<lparr>number = 4, tag = ''H4''\<rparr>]"

definition defaultLevel_p0 :: level where
  "defaultLevel_p0 = levels_p0 ! 2"

record Header_p0 =
  priv_settings_p0 :: HeaderConfig
  priv_data_p0 :: HeaderData_p0
  settingsButtons_p0 :: "button list"
  priv_element_p0 :: element

definition normalizeData_p0 :: "jsval \<Rightarrow> error + HeaderData_p0" where
  "normalizeData_p0 data =
     (let data = (if typeof data \<noteq> ''object'' then JObj [] else data)
      in andThen (getprop data ''text'') (\<lambda>t.
         andThen (getprop data ''level'') (\<lambda>l.
           Inr \<lparr>data_text_p0 = js_or t (JStr ''''),
                data_level_p0 = js_or (parseInt l) (JNum (number defaultLevel_p0))\<rparr>)))"

definition currentLevel_p0 :: "Header_p0 \<Rightarrow> level" where
  "currentLevel_p0 s =
     (case find (\<lambda>levelItem. strict_eq (JNum (number levelItem)) (data_level_p0 (priv_data_p0 s)))
             levels_p0 of
        None \<Rightarrow> defaultLevel_p0
      | Some l \<Rightarrow> l)"

definition getTag_p0 :: "Header_p0 \<Rightarrow> element" where
  "getTag_p0 s =
     \<lparr>tagName = tag (currentLevel_p0 s),
      innerHTML = toString (js_or (data_text_p0 (priv_data_p0 s)) (JStr '''')),
      className = ''ce-header'',
      style_textAlign = JUndefined,
      contentEditable = ''true'',
      dataset_placeholder = toString (js_or (placeholder (priv_settings_p0 s)) (JStr '''')),
      attached = False\<rparr>"

definition constructor_p0 :: "jsval \<Rightarrow> HeaderConfig \<Rightarrow> error + Header_p0" where
  "constructor_p0 data config =
     andThen (normalizeData_p0 data) (\<lambda>nd.
       (let s = \<lparr>priv_settings_p0 = config, priv_data_p0 = nd, settingsButtons_p0 = [],
                  priv_element_p0 = blank\<rparr>
        in Inr (s\<lparr>priv_element_p0 := getTag_p0 s\<rparr>)))"


definition get_data_p0 :: "Header_p0 \<Rightarrow> HeaderData_p0 \<times> Header_p0" where
  "get_data_p0 s =
     (let s1 = s\<lparr>priv_data_p0 :=
                  (priv_data_p0 s)\<lparr>data_text_p0 := JStr (innerHTML (priv_element_p0 s))\<rparr>\<rparr>;
          s2 = s1\<lparr>priv_data_p0 :=
                  (priv_data_p0 s1)\<lparr>data_level_p0 := JNum (number (currentLevel_p0 s1))\<rparr>\<rparr>
      in (priv_data_p0 s2, s2))"

definition set_data_p0 :: "Header_p0 \<Rightarrow> jsval \<Rightarrow> error + Header_p0" where
  "set_data_p0 s data =
     andThen (normalizeData_p0 data) (\<lambda>nd.
     (let s1 = s\<lparr>priv_data_p0 := nd\<rparr>
      in andThen (getprop data ''level'') (\<lambda>l.
         (let s2 = (if l \<noteq> JUndefined \<and> attached (priv_element_p0 s1)
                    then (let newHeader = getTag_p0 s1;
                              newHeader = newHeader\<lparr>innerHTML := innerHTML (priv_element_p0 s1)\<rparr>;
                              newHeader = newHeader\<lparr>attached := True\<rparr>
                          in s1\<lparr>priv_element_p0 := newHeader\<rparr>)
                    else s1)
          in andThen (getprop data ''text'') (\<lambda>t.
               Inr (if t \<noteq> JUndefined
                    then s2\<lparr>priv_element_p0 := (priv_element_p0 s2)
                            \<lparr>innerHTML := toString (js_or (data_text_p0 (priv_data_p0 s2)) (JStr ''''))\<rparr>\<rparr>
                    else s2))))))"

definition levelButton_p0 :: "Header_p0 \<Rightarrow> level \<Rightarrow> button" where
  "levelButton_p0 s level =
     \<lparr>active = (number (currentLevel_p0 s) = number level),
      dataset_level = Some (toString (JNum (number level))),
      dataset_align = None,
      button_textAlign = JUndefined\<rparr>"

definition renderSettings_p0 :: "Header_p0 \<Rightarrow> nat list \<times> Header_p0" where
  "renderSettings_p0 s =
     (let made = map (levelButton_p0 s) levels_p0;
          n = length (settingsButtons_p0 s)
      in ([n ..< n + length made], s\<lparr>settingsButtons_p0 := settingsButtons_p0 s @ made\<rparr>))"

definition setLevel_p0 :: "Header_p0 \<Rightarrow> jsval \<Rightarrow> error + Header_p0" where
  "setLevel_p0 s level =
     (let (d1, s1) = get_data_p0 s
      in andThen (set_data_p0 s1 (JObj [(''level'', level), (''text'', data_text_p0 d1)]))
           (\<lambda>s2. Inr (s2\<lparr>settingsButtons_p0 := map (highlightLevel level) (settingsButtons_p0 s2)\<rparr>)))"


definition validate_p0 :: "jsval \<Rightarrow> error + bool" where
  "validate_p0 blockData =
     andThen (getprop blockData ''text'') (\<lambda>t.
       (case t of JStr str \<Rightarrow> Inr (trim str \<noteq> '''') | _ \<Rightarrow> Inl TypeError))"

definition save_p0 :: "Header_p0 \<Rightarrow> element \<Rightarrow> HeaderData_p0" where
  "save_p0 s toolsContent =
     \<lparr>data_text_p0 = JStr (innerHTML toolsContent),
      data_level_p0 = JNum (number (currentLevel_p0 s))\<rparr>"

definition onPaste_p0 :: "Header_p0 \<Rightarrow> element \<Rightarrow> error + Header_p0" where
  "onPaste_p0 s content =
     (let level = (if tagName content = ''H2'' then 2
                   else if tagName content = ''H3'' then 3
                   else if tagName content = ''H4'' then 4
                   else 2)
      in set_data_p0 s (JObj [(''level'', JNum level), (''text'', JStr (innerHTML content))]))"

section \<open>Notions used in the statements\<close>





text \<open>The tags the two files claim on paste (\<open>pasteConfig\<close>).\<close>

definition pasteConfig_tags :: "string list" where
  "pasteConfig_tags = [''H1'', ''H2'', ''H3'']"

definition pasteConfig_tags_p0 :: "string list" where
  "pasteConfig_tags_p0 = [''H2'', ''H3'', ''H4'']"

text \<open>
  The buttons of one settings panel, by the positions \<open>renderSettings\<close> returned; the
  level group are the buttons with a \<open>dataset.level\<close>, the alignment group those with a
  \<open>dataset.align\<close>; a button is highlighted when it is active.
\<close>

definition panelButtons :: "Header \<Rightarrow> nat list \<Rightarrow> button list" where
  "panelButtons s holder = map (\<lambda>i. settingsButtons s ! i) holder"

definition levelGroup :: "button list \<Rightarrow> button list" where
  "levelGroup bs = filter (\<lambda>b. dataset_level b \<noteq> None) bs"

definition alignGroup :: "button list \<Rightarrow> button list" where
  "alignGroup bs = filter (\<lambda>b. dataset_align b \<noteq> None) bs"

definition highlighted :: "button list \<Rightarrow> button list" where
  "highlighted bs = filter active bs"

text \<open>
  The user's interactions with the settings: opening them (the host calls
  \<open>renderSettings\<close>), and a click on a button, which runs the handler \<open>renderSettings\<close>
  gave it: \<open>setLevel(level.number)\<close> for an entry of \<open>levels\<close>, \<open>setAlign(item.align)\<close> for
  an entry of the alignments.
\<close>

datatype interaction = OpenSettings | ClickLevel level | ClickAlign alignItem

fun offered :: "interaction \<Rightarrow> bool" where
  "offered OpenSettings = True"
| "offered (ClickLevel l) = (l \<in> set levels)"
| "offered (ClickAlign i) = (i \<in> set align_list)"

fun interact :: "Header \<Rightarrow> interaction \<Rightarrow> error + Header" where
  "interact s OpenSettings = Inr (snd (renderSettings s))"
| "interact s (ClickLevel l) = setLevel s (JNum (number l))"
| "interact s (ClickAlign i) = setAlign s (JStr (align i))"

fun interactions :: "Header \<Rightarrow> interaction list \<Rightarrow> error + Header" where
  "interactions s [] = Inr s"
| "interactions s (x # xs) = andThen (interact s x) (\<lambda>s'. interactions s' xs)"

text \<open>Two notions for the proofs about \<open>parseInt\<close>: a decimal digit, and \<open>parseInt\<close> from
  the sign on.\<close>

definition isDigitChar :: "char \<Rightarrow> bool" where
  "isDigitChar c = (\<exists>d<10. c = digitChar d)"

definition parseDigits :: "int \<Rightarrow> string \<Rightarrow> jsval" where
  "parseDigits sign s1 =
     (let hex = (take 2 s1 = ''0x'' \<or> take 2 s1 = ''0X'');
          r = (if hex then 16 else 10);
          s2 = (if hex then drop 2 s1 else s1);
          z = takeWhile (\<lambda>c. digitValue r c \<noteq> None) s2
      in if z = [] then JNaN else JNum (sign * int (radixValue r z)))"


text \<open>The record the getter \<open>data\<close> returns in a state.\<close>

definition currentData :: "Header \<Rightarrow> HeaderData" where
  "currentData s = fst (get_data s)"

definition currentData_p0 :: "Header_p0 \<Rightarrow> HeaderData_p0" where
  "currentData_p0 s = fst (get_data_p0 s)"

text \<open>
  Example values for the instances of the theorems: a level-2 heading \<open>Hi\<close> that is attached
  to the document, in either file, and two pasted elements.
\<close>

definition exampleElement :: "string \<Rightarrow> string \<Rightarrow> element" where
  "exampleElement name html =
     \<lparr>tagName = name, innerHTML = html, className = ''ce-header'', style_textAlign = JStr ''left'',
      contentEditable = ''true'', dataset_placeholder = '''', attached = True\<rparr>"

definition exampleHeader :: Header where
  "exampleHeader =
     \<lparr>priv_CSS_align = JStr ''left'', priv_settings = \<lparr>placeholder = JStr ''''\<rparr>,
      priv_data = \<lparr>data_text = JStr ''Hi'', data_level = JNum 2, data_align = JStr ''left''\<rparr>,
      settingsButtons = [], priv_element = exampleElement ''H2'' ''Hi''\<rparr>"

definition exampleHeader_p0 :: Header_p0 where
  "exampleHeader_p0 =
     \<lparr>priv_settings_p0 = \<lparr>placeholder = JStr ''''\<rparr>,
      priv_data_p0 = \<lparr>data_text_p0 = JStr ''Hi'', data_level_p0 = JNum 2\<rparr>,
      settingsButtons_p0 = [], priv_element_p0 = exampleElement ''H2'' ''Hi''\<rparr>"

text \<open>
  What \<open>renderSettings\<close> appends, as the proofs keep track of it: the \<open>dataset\<close> of the
  buttons of a panel, and a panel that lies within \<open>settingsButtons\<close> with one button
  highlighted in each group.
\<close>

definition panelShape :: "button list \<Rightarrow> bool" where
  "panelShape bs =
     (map dataset_level bs
        = map (\<lambda>l. Some (toString (JNum (number l)))) levels @ map (\<lambda>i. None) align_list \<and>
      map dataset_align bs
        = map (\<lambda>l. None) levels @ map (\<lambda>i. Some (align i)) align_list)"

definition panelOK :: "Header \<Rightarrow> nat list \<Rightarrow> bool" where
  "panelOK s holder =
     ((\<forall>i \<in> set holder. i < length (settingsButtons s)) \<and>
      panelShape (panelButtons s holder) \<and>
      length (highlighted (levelGroup (panelButtons s holder))) = 1 \<and>
      length (highlighted (alignGroup (panelButtons s holder))) = 1)"

section \<open>Facts about the built-in operations\<close>

subsection \<open>Printing a number and reading it back\<close>

lemma digit_cases:
  "d < 10 \<Longrightarrow> d = 0 \<or> d = 1 \<or> d = 2 \<or> d = 3 \<or> d = 4 \<or> d = 5 \<or> d = 6 \<or> d = 7 \<or> d = 8 \<or> d = (9::nat)"
  by arith

lemma digitValue_digitChar: "d < 10 \<Longrightarrow> digitValue r (digitChar d) = Some d"
  by (drule digit_cases) (auto simp: digitValue_def digitChar_def)

lemma digitChar_not_ws: "d < 10 \<Longrightarrow> \<not> isWhiteSpace (digitChar d)"
  by (drule digit_cases) (auto simp: isWhiteSpace_def digitChar_def)

lemma digitChar_not_sign:
  "d < 10 \<Longrightarrow> digitChar d \<notin> {CHR ''-'', CHR ''+'', CHR ''x'', CHR ''X''}"
  by (drule digit_cases) (auto simp: digitChar_def)

declare digits.simps [simp del]

lemma digits_all: "c \<in> set (digits n) \<Longrightarrow> isDigitChar c"
proof (induction n rule: digits.induct)
  case (1 n)
  show ?case
  proof (cases "n < 10")
    case True
    with "1.prems" show ?thesis by (auto simp: digits.simps [of n] isDigitChar_def)
  next
    case False
    with "1.prems" have "c \<in> set (digits (n div 10)) \<or> c = digitChar (n mod 10)"
      by (auto simp: digits.simps [of n])
    then show ?thesis
    proof
      assume "c \<in> set (digits (n div 10))"
      with "1.IH" False show ?thesis by simp
    next
      assume "c = digitChar (n mod 10)"
      moreover have "n mod 10 < 10" by simp
      ultimately show ?thesis unfolding isDigitChar_def by blast
    qed
  qed
qed

lemma digits_nonempty: "digits n \<noteq> []"
  by (subst digits.simps) simp

lemma radixValue_snoc: "radixValue r (z @ [c]) = radixValue r z * r + the (digitValue r c)"
  by (simp add: radixValue_def)

lemma radixValue_digits: "radixValue 10 (digits n) = n"
proof (induction n rule: digits.induct)
  case (1 n)
  show ?case
  proof (cases "n < 10")
    case True
    then show ?thesis
      by (simp add: digits.simps [of n] radixValue_def digitValue_digitChar)
  next
    case False
    have "radixValue 10 (digits n) = radixValue 10 (digits (n div 10)) * 10 + n mod 10"
      using False by (simp add: digits.simps [of n] radixValue_snoc digitValue_digitChar)
    also have "\<dots> = n div 10 * 10 + n mod 10"
      using "1.IH" False by simp
    finally show ?thesis by simp
  qed
qed

lemma parseInt_digit_first:
  assumes "isDigitChar c"
  shows "parseInt (JStr (c # s)) = parseDigits 1 (c # s)"
    and "parseInt (JStr (CHR ''-'' # c # s)) = parseDigits (- 1) (c # s)"
proof -
  from assms obtain d where d: "d < 10" "c = digitChar d" unfolding isDigitChar_def by blast
  have ws: "\<not> isWhiteSpace c" using d digitChar_not_ws by simp
  have sg: "c \<noteq> CHR ''-''" "c \<noteq> CHR ''+''" using d digitChar_not_sign [of d] by auto
  show "parseInt (JStr (c # s)) = parseDigits 1 (c # s)"
    using ws sg by (simp add: parseInt_def parseDigits_def Let_def)
  have "\<not> isWhiteSpace CHR ''-''" by (simp add: isWhiteSpace_def)
  then show "parseInt (JStr (CHR ''-'' # c # s)) = parseDigits (- 1) (c # s)"
    by (simp add: parseInt_def parseDigits_def Let_def)
qed

lemma parseDigits_all:
  assumes "ds \<noteq> []" and "\<forall>c\<in>set ds. isDigitChar c"
  shows "parseDigits sign ds = JNum (sign * int (radixValue 10 ds))"
proof -
  have dv: "\<And>c. isDigitChar c \<Longrightarrow> digitValue 10 c \<noteq> None"
    unfolding isDigitChar_def using digitValue_digitChar by auto
  have nx: "\<And>c. isDigitChar c \<Longrightarrow> c \<noteq> CHR ''x'' \<and> c \<noteq> CHR ''X''"
    unfolding isDigitChar_def using digitChar_not_sign by auto
  have nohex: "\<not> (take 2 ds = ''0x'' \<or> take 2 ds = ''0X'')"
  proof (cases ds)
    case Nil
    then show ?thesis by simp
  next
    case (Cons a as)
    show ?thesis
    proof (cases as)
      case Nil
      with Cons show ?thesis by simp
    next
      case (Cons b bs)
      with \<open>ds = a # as\<close> assms(2) have "isDigitChar b" by simp
      with nx Cons \<open>ds = a # as\<close> show ?thesis by auto
    qed
  qed
  have tw: "takeWhile (\<lambda>c. digitValue 10 c \<noteq> None) ds = ds"
    using assms(2) dv by (simp add: takeWhile_eq_all_conv)
  have hexF: "(take 2 ds = ''0x'' \<or> take 2 ds = ''0X'') = False"
    using nohex by simp
  show ?thesis
    unfolding parseDigits_def Let_def hexF if_False tw using assms(1) by simp
qed

lemma parseInt_num_small:
  assumes "\<bar>n\<bar> < 10 ^ 21"
  shows "parseInt (JNum n) = JNum n"
proof -
  let ?ds = "digits (nat \<bar>n\<bar>)"
  obtain c cs where ds: "?ds = c # cs"
    using digits_nonempty [of "nat \<bar>n\<bar>"] by (cases ?ds) auto
  have all: "\<forall>c\<in>set ?ds. isDigitChar c" using digits_all by blast
  then have c: "isDigitChar c" using ds by simp
  have core: "parseDigits sign ?ds = JNum (sign * int (nat \<bar>n\<bar>))" for sign
    using parseDigits_all [OF digits_nonempty all] by (simp add: radixValue_digits)
  show ?thesis
  proof (cases "n < 0")
    case True
    then have "parseInt (JNum n) = parseInt (JStr (CHR ''-'' # c # cs))"
      using assms ds by (simp add: parseInt_def numToString_def)
    also have "\<dots> = parseDigits (- 1) ?ds"
      using parseInt_digit_first(2) [OF c] ds by simp
    finally show ?thesis using core True by simp
  next
    case False
    then have "parseInt (JNum n) = parseInt (JStr (c # cs))"
      using assms ds by (simp add: parseInt_def numToString_def)
    also have "\<dots> = parseDigits 1 ?ds"
      using parseInt_digit_first(1) [OF c] ds by simp
    finally show ?thesis using core False by simp
  qed
qed






lemma js_or_idem: "js_or (js_or a b) b = js_or a b"
  by (simp add: js_or_def)



text \<open>The equations that evaluate the built-in operations on a given value.\<close>

lemmas js_eval = parseInt_def numToString_def digits.simps digitChar_def isWhiteSpace_def
  digitValue_def radixValue_def js_or_def field_def

section \<open>Normalization\<close>

lemma defaults:
  "number defaultLevel = 2" "align defaultAlign = ''left''" "number defaultLevel_p0 = 4"
  by (simp_all add: defaultLevel_def levels_def defaultAlign_def align_list_def
      defaultLevel_p0_def levels_p0_def)

lemma normalizeData_obj:
  "normalizeData (JObj fs) =
     Inr \<lparr>data_text = js_or (field fs ''text'') (JStr ''''),
          data_level = js_or (parseInt (field fs ''level'')) (JNum (number defaultLevel)),
          data_align = js_or (field fs ''align'') (JStr (align defaultAlign))\<rparr>"
  by (simp add: normalizeData_def andThen_def)

lemma normalizeData_p0_obj:
  "normalizeData_p0 (JObj fs) =
     Inr \<lparr>data_text_p0 = js_or (field fs ''text'') (JStr ''''),
          data_level_p0 = js_or (parseInt (field fs ''level'')) (JNum (number defaultLevel_p0))\<rparr>"
  by (simp add: normalizeData_p0_def andThen_def)


text \<open>
  What is not a record: every value but \<open>null\<close> is normalized without an error, and a value
  that is not an object is normalized as the empty record is.
\<close>

lemma normalizeData_not_null:
  "d \<noteq> JNull \<Longrightarrow> \<exists>r. normalizeData d = Inr r"
  "d \<noteq> JNull \<Longrightarrow> \<exists>r. normalizeData_p0 d = Inr r"
  by (cases d; simp add: normalizeData_def normalizeData_p0_def andThen_def)+

lemma normalizeData_non_object:
  "typeof d \<noteq> ''object'' \<Longrightarrow> normalizeData d = normalizeData (JObj [])"
  "typeof d \<noteq> ''object'' \<Longrightarrow> normalizeData_p0 d = normalizeData_p0 (JObj [])"
  by (simp_all add: normalizeData_def normalizeData_p0_def)

lemma normalizeData_empty:
  "normalizeData (JObj []) = Inr \<lparr>data_text = JStr '''', data_level = JNum 2, data_align = JStr ''left''\<rparr>"
  "number (levels ! 1) = 2" "align (align_list ! 0) = ''left''" "length levels = 3"
  by (simp_all add: normalizeData_obj js_eval defaults levels_def align_list_def)

text \<open>\<open>validate\<close> returns a boolean on what \<open>save\<close> returns, and throws when \<open>text\<close> is absent.\<close>

lemma validate_save: "\<exists>b. validate (obj_of (save s c)) = Inr b"
  by (simp add: validate_def obj_of_def save_def andThen_def field_def)

lemma validate_examples:
  "validate (JObj [(''text'', JStr ''  '')]) = Inr False"
  "validate (JObj [(''text'', JStr ''x'')]) = Inr True"
  "validate (JObj []) = Inl TypeError"
  by (simp_all add: validate_def andThen_def field_def trim_def isWhiteSpace_def)

subsection \<open>The looked-up level and alignment\<close>

lemma currentLevel_in_levels: "currentLevel s \<in> set levels"
proof (cases "find (\<lambda>levelItem. strict_eq (JNum (number levelItem)) (data_level (priv_data s))) levels")
  case None
  then show ?thesis by (simp add: currentLevel_def defaultLevel_def levels_def)
next
  case (Some l)
  then have "l \<in> set levels" by (auto simp: find_Some_iff)
  with Some show ?thesis by (simp add: currentLevel_def)
qed

lemma currentAlign_in_aligns: "currentAlign s \<in> set align_list"
proof (cases "find (\<lambda>item. strict_eq (JStr (align item)) (data_align (priv_data s))) align_list")
  case None
  then show ?thesis by (simp add: currentAlign_def defaultAlign_def align_list_def)
next
  case (Some a)
  then have "a \<in> set align_list" by (auto simp: find_Some_iff)
  with Some show ?thesis by (simp add: currentAlign_def)
qed

lemma currentLevel_p0_in_levels: "currentLevel_p0 s \<in> set levels_p0"
proof (cases "find (\<lambda>levelItem. strict_eq (JNum (number levelItem)) (data_level_p0 (priv_data_p0 s))) levels_p0")
  case None
  then show ?thesis by (simp add: currentLevel_p0_def defaultLevel_p0_def levels_p0_def)
next
  case (Some l)
  then have "l \<in> set levels_p0" by (auto simp: find_Some_iff)
  with Some show ?thesis by (simp add: currentLevel_p0_def)
qed

subsection \<open>The level that normalization stores\<close>



subsection \<open>\<open>null\<close>\<close>

text \<open>
  C2: \<open>null\<close> passes the guard \<open>typeof data !== 'object'\<close>, and reading \<open>data.text\<close> then
  throws a TypeError: in \<open>normalizeData\<close> of both files, and so in both constructors.
\<close>

theorem normalizeData_null_throws:
  "normalizeData JNull = Inl TypeError \<and> normalizeData_p0 JNull = Inl TypeError \<and>
   constructor JNull config = Inl TypeError \<and> constructor_p0 JNull config = Inl TypeError"
  by (simp add: normalizeData_def normalizeData_p0_def constructor_def constructor_p0_def andThen_def)

subsection \<open>Idempotence\<close>





text \<open>
  The type of \<open>level\<close> matters here. A level given as a string of 22 digits is parsed to
  \<open>10^21\<close>, which prints as \<open>1e+21\<close> and is parsed to 1 the second time.
\<close>

lemma normalizeData_twice_on_long_string:
  "normalizeData (JObj [(''level'', JStr ''1000000000000000000000'')])
     = Inr \<lparr>data_text = JStr '''', data_level = JNum 1000000000000000000000,
            data_align = JStr ''left''\<rparr> \<and>
   normalizeData (obj_of \<lparr>data_text = JStr '''', data_level = JNum 1000000000000000000000,
                          data_align = JStr ''left''\<rparr>)
     = Inr \<lparr>data_text = JStr '''', data_level = JNum 1, data_align = JStr ''left''\<rparr>"
proof -
  have a: "parseInt (JStr ''1000000000000000000000'') = JNum 1000000000000000000000"
    by (simp add: parseInt_def isWhiteSpace_def digitValue_def radixValue_def)
  have b: "parseInt (JNum 1000000000000000000000) = JNum 1"
    by (simp add: js_eval stripTrailingZeros_def)
  show ?thesis
    unfolding obj_of_def normalizeData_obj
    by (simp add: field_def a b js_or_def defaults)
qed

subsection \<open>The default level\<close>

text \<open>
  C4: in \<open>part_000\<close>, whose levels are H2, H3 and H4, \<open>normalizeData({})\<close> stores the level 4:
  \<open>defaultLevel\<close> is \<open>levels[2]\<close>, the third entry H4, and not the first entry H2 that its
  comment (Use H2 as default header) names.
\<close>

theorem normalizeData_p0_default_is_H4:
  "normalizeData_p0 (JObj []) = Inr \<lparr>data_text_p0 = JStr '''', data_level_p0 = JNum 4\<rparr> \<and>
   defaultLevel_p0 = levels_p0 ! 2 \<and> tag defaultLevel_p0 = ''H4'' \<and>
   number (levels_p0 ! 0) = 2 \<and> tag (levels_p0 ! 0) = ''H2''"
  by (simp add: normalizeData_p0_obj js_eval defaults defaultLevel_p0_def levels_p0_def)

section \<open>Saving\<close>

text \<open>
  C10: whatever the instance holds, also a stored level or alignment that is in no
  registry, \<open>save\<close> returns the number of an entry of \<open>levels\<close> and the alignment of an
  entry of the alignments.
\<close>

theorem save_in_registries:
  "(\<exists>l \<in> set levels. data_level (save s toolsContent) = JNum (number l)) \<and>
   (\<exists>a \<in> set align_list. data_align (save s toolsContent) = JStr (align a))"
  using currentLevel_in_levels [of s] currentAlign_in_aligns [of s] by (auto simp: save_def)

section \<open>The setter and the getter of \<open>data\<close>\<close>

lemma getprop_cases:
  assumes "getprop d name = Inr v"
  obtains fs where "d = JObj fs" "v = field fs name"
    | "typeof d \<noteq> ''object''" "d \<noteq> JUndefined" "v = JUndefined"
  using assms by (cases d) auto

lemma toString_text [simp]: "toString (js_or (JStr t) (JStr '''')) = t"
  by (cases "t = []") (simp_all add: js_or_def)

lemma set_data_obj:
  "set_data s (JObj fs) =
     (case normalizeData (JObj fs) of
        Inl e \<Rightarrow> Inl e
      | Inr nd \<Rightarrow>
          (let s1 = s\<lparr>priv_data := nd\<rparr>;
               s2 = (if field fs ''level'' \<noteq> JUndefined \<and> attached (priv_element s)
                     then s1\<lparr>priv_element := (getTag s1)
                            \<lparr>innerHTML := innerHTML (priv_element s),
                             style_textAlign := field fs ''align'', attached := True\<rparr>\<rparr>
                     else s1)
           in Inr (if field fs ''text'' \<noteq> JUndefined
                   then s2\<lparr>priv_element := (priv_element s2)
                           \<lparr>innerHTML := toString (js_or (data_text nd) (JStr ''''))\<rparr>\<rparr>
                   else s2)))"
  by (simp add: set_data_def andThen_def Let_def normalizeData_obj)

lemma set_data_primitive:
  assumes "typeof d \<noteq> ''object''" and "d \<noteq> JUndefined"
  shows "\<exists>nd. set_data s d = Inr (s\<lparr>priv_data := nd\<rparr>)"
  using assms by (cases d) (auto simp: set_data_def andThen_def normalizeData_def Let_def)

lemma set_data_p0_obj:
  "set_data_p0 s (JObj fs) =
     (case normalizeData_p0 (JObj fs) of
        Inl e \<Rightarrow> Inl e
      | Inr nd \<Rightarrow>
          (let s1 = s\<lparr>priv_data_p0 := nd\<rparr>;
               s2 = (if field fs ''level'' \<noteq> JUndefined \<and> attached (priv_element_p0 s)
                     then s1\<lparr>priv_element_p0 := (getTag_p0 s1)
                            \<lparr>innerHTML := innerHTML (priv_element_p0 s), attached := True\<rparr>\<rparr>
                     else s1)
           in Inr (if field fs ''text'' \<noteq> JUndefined
                   then s2\<lparr>priv_element_p0 := (priv_element_p0 s2)
                           \<lparr>innerHTML := toString (js_or (data_text_p0 nd) (JStr ''''))\<rparr>\<rparr>
                   else s2)))"
  by (simp add: set_data_p0_def andThen_def Let_def normalizeData_p0_obj)

lemma set_data_p0_primitive:
  assumes "typeof d \<noteq> ''object''" and "d \<noteq> JUndefined"
  shows "\<exists>nd. set_data_p0 s d = Inr (s\<lparr>priv_data_p0 := nd\<rparr>)"
  using assms by (cases d) (auto simp: set_data_p0_def andThen_def normalizeData_p0_def Let_def)

lemma set_data_innerHTML:
  assumes "getprop d ''text'' = Inr t"
  shows "\<exists>s'. set_data s d = Inr s' \<and>
           innerHTML (priv_element s') =
             (if t = JUndefined then innerHTML (priv_element s) else toString (js_or t (JStr '''')))"
  using assms
proof (cases rule: getprop_cases)
  case (1 fs)
  then show ?thesis
    by (simp add: set_data_obj normalizeData_obj Let_def js_or_idem)
next
  case 2
  with set_data_primitive [of d s] show ?thesis by auto
qed

lemma set_data_p0_innerHTML:
  assumes "getprop d ''text'' = Inr t"
  shows "\<exists>s'. set_data_p0 s d = Inr s' \<and>
           innerHTML (priv_element_p0 s') =
             (if t = JUndefined then innerHTML (priv_element_p0 s) else toString (js_or t (JStr '''')))"
  using assms
proof (cases rule: getprop_cases)
  case (1 fs)
  then show ?thesis
    by (simp add: set_data_p0_obj normalizeData_p0_obj Let_def js_or_idem)
next
  case 2
  with set_data_p0_primitive [of d s] show ?thesis by auto
qed

text \<open>
  C9: a call of the setter whose payload leaves \<open>text\<close> undefined leaves the displayed
  text of the element as it was (also when the element is replaced); a payload whose
  \<open>text\<close> is a string overwrites the displayed text with it. In both files.
\<close>

theorem set_data_text:
  "(getprop d ''text'' = Inr JUndefined \<longrightarrow>
      (\<exists>s'. set_data s d = Inr s' \<and> innerHTML (priv_element s') = innerHTML (priv_element s))) \<and>
   (getprop d ''text'' = Inr (JStr t) \<longrightarrow>
      (\<exists>s'. set_data s d = Inr s' \<and> innerHTML (priv_element s') = t)) \<and>
   (getprop d ''text'' = Inr JUndefined \<longrightarrow>
      (\<exists>s'. set_data_p0 p d = Inr s' \<and> innerHTML (priv_element_p0 s') = innerHTML (priv_element_p0 p))) \<and>
   (getprop d ''text'' = Inr (JStr t) \<longrightarrow>
      (\<exists>s'. set_data_p0 p d = Inr s' \<and> innerHTML (priv_element_p0 s') = t))"
proof (intro conjI impI)
  assume "getprop d ''text'' = Inr JUndefined"
  from set_data_innerHTML [OF this, of s]
  show "\<exists>s'. set_data s d = Inr s' \<and> innerHTML (priv_element s') = innerHTML (priv_element s)"
    by simp
next
  assume "getprop d ''text'' = Inr (JStr t)"
  from set_data_innerHTML [OF this, of s]
  show "\<exists>s'. set_data s d = Inr s' \<and> innerHTML (priv_element s') = t"
    by simp
next
  assume "getprop d ''text'' = Inr JUndefined"
  from set_data_p0_innerHTML [OF this, of p]
  show "\<exists>s'. set_data_p0 p d = Inr s' \<and> innerHTML (priv_element_p0 s') = innerHTML (priv_element_p0 p)"
    by simp
next
  assume "getprop d ''text'' = Inr (JStr t)"
  from set_data_p0_innerHTML [OF this, of p]
  show "\<exists>s'. set_data_p0 p d = Inr s' \<and> innerHTML (priv_element_p0 s') = t"
    by simp
qed

theorem set_data_text_witness:
  "getprop (JObj [(''level'', JNum 3)]) ''text'' = Inr JUndefined \<and>
   (\<exists>s'. set_data exampleHeader (JObj [(''level'', JNum 3)]) = Inr s' \<and>
         innerHTML (priv_element s') = ''Hi'') \<and>
   (\<exists>s'. set_data_p0 exampleHeader_p0 (JObj [(''level'', JNum 3)]) = Inr s' \<and>
         innerHTML (priv_element_p0 s') = ''Hi'') \<and>
   getprop (JObj [(''text'', JStr ''Ho'')]) ''text'' = Inr (JStr ''Ho'') \<and>
   (\<exists>s'. set_data exampleHeader (JObj [(''text'', JStr ''Ho'')]) = Inr s' \<and>
         innerHTML (priv_element s') = ''Ho'') \<and>
   (\<exists>s'. set_data_p0 exampleHeader_p0 (JObj [(''text'', JStr ''Ho'')]) = Inr s' \<and>
         innerHTML (priv_element_p0 s') = ''Ho'')"
proof -
  have a: "getprop (JObj [(''level'', JNum 3)]) ''text'' = Inr JUndefined"
    and b: "getprop (JObj [(''text'', JStr ''Ho'')]) ''text'' = Inr (JStr ''Ho'')"
    by (simp_all add: field_def)
  have e: "innerHTML (priv_element exampleHeader) = ''Hi''"
    "innerHTML (priv_element_p0 exampleHeader_p0) = ''Hi''"
    by (simp_all add: exampleHeader_def exampleHeader_p0_def exampleElement_def)
  show ?thesis
    using a b
      set_data_text [of "JObj [(''level'', JNum 3)]" exampleHeader "''Ho''" exampleHeader_p0]
      set_data_text [of "JObj [(''text'', JStr ''Ho'')]" exampleHeader "''Ho''" exampleHeader_p0]
    unfolding e by blast
qed

subsection \<open>Looking up the stored level and alignment\<close>

lemma levels_cases:
  "l \<in> set levels \<Longrightarrow> l = \<lparr>number = 1, tag = ''H1''\<rparr> \<or> l = \<lparr>number = 2, tag = ''H2''\<rparr> \<or> l = \<lparr>number = 3, tag = ''H3''\<rparr>"
  by (simp add: levels_def)

lemma levels_p0_cases:
  "l \<in> set levels_p0 \<Longrightarrow> l = \<lparr>number = 2, tag = ''H2''\<rparr> \<or> l = \<lparr>number = 3, tag = ''H3''\<rparr> \<or> l = \<lparr>number = 4, tag = ''H4''\<rparr>"
  by (simp add: levels_p0_def)

lemma align_cases:
  "a \<in> set align_list \<Longrightarrow> a = \<lparr>align = ''left''\<rparr> \<or> a = \<lparr>align = ''center''\<rparr> \<or> a = \<lparr>align = ''right''\<rparr>"
  by (simp add: align_list_def)

lemma find_level:
  "l \<in> set levels \<Longrightarrow> find (\<lambda>levelItem. number levelItem = number l) levels = Some l"
  by (drule levels_cases) (auto simp: levels_def)

lemma find_level_p0:
  "l \<in> set levels_p0 \<Longrightarrow> find (\<lambda>levelItem. number levelItem = number l) levels_p0 = Some l"
  by (drule levels_p0_cases) (auto simp: levels_p0_def)

lemma find_align:
  "a \<in> set align_list \<Longrightarrow> find (\<lambda>item. align item = align a) align_list = Some a"
  by (drule align_cases) (auto simp: align_list_def)

lemma currentLevel_of_entry:
  "l \<in> set levels \<Longrightarrow> data_level (priv_data s) = JNum (number l) \<Longrightarrow> currentLevel s = l"
  by (simp add: currentLevel_def find_level)

lemma currentLevel_p0_of_entry:
  "l \<in> set levels_p0 \<Longrightarrow> data_level_p0 (priv_data_p0 s) = JNum (number l) \<Longrightarrow> currentLevel_p0 s = l"
  by (simp add: currentLevel_p0_def find_level_p0)

lemma currentAlign_of_entry:
  "a \<in> set align_list \<Longrightarrow> data_align (priv_data s) = JStr (align a) \<Longrightarrow> currentAlign s = a"
  by (simp add: currentAlign_def find_align)

lemma parseInt_level:
  "l \<in> set levels \<Longrightarrow> parseInt (JNum (number l)) = JNum (number l)"
  "l \<in> set levels_p0 \<Longrightarrow> parseInt (JNum (number l)) = JNum (number l)"
  by (rule parseInt_num_small, drule levels_cases, auto)
     (rule parseInt_num_small, drule levels_p0_cases, auto)

lemma level_nonzero:
  "l \<in> set levels \<Longrightarrow> number l \<noteq> 0"
  "l \<in> set levels_p0 \<Longrightarrow> number l \<noteq> 0"
  by (drule levels_cases, auto) (drule levels_p0_cases, auto)

lemma align_nonempty: "a \<in> set align_list \<Longrightarrow> align a \<noteq> []"
  by (drule align_cases) auto

lemma get_data_eq:
  "get_data s =
     (\<lparr>data_text = JStr (innerHTML (priv_element s)),
       data_level = JNum (number (currentLevel s)),
       data_align = JStr (align (currentAlign s))\<rparr>,
      s\<lparr>priv_data := \<lparr>data_text = JStr (innerHTML (priv_element s)),
                       data_level = JNum (number (currentLevel s)),
                       data_align = JStr (align (currentAlign s))\<rparr>\<rparr>)"
  by (cases s, cases "priv_data s") (simp add: get_data_def Let_def currentLevel_def currentAlign_def)

lemma get_data_p0_eq:
  "get_data_p0 s =
     (\<lparr>data_text_p0 = JStr (innerHTML (priv_element_p0 s)),
       data_level_p0 = JNum (number (currentLevel_p0 s))\<rparr>,
      s\<lparr>priv_data_p0 := \<lparr>data_text_p0 = JStr (innerHTML (priv_element_p0 s)),
                          data_level_p0 = JNum (number (currentLevel_p0 s))\<rparr>\<rparr>)"
  by (cases s, cases "priv_data_p0 s") (simp add: get_data_p0_def Let_def currentLevel_p0_def)

lemma currentData_eq:
  "currentData s = \<lparr>data_text = JStr (innerHTML (priv_element s)),
       data_level = JNum (number (currentLevel s)),
       data_align = JStr (align (currentAlign s))\<rparr>"
  by (simp add: currentData_def get_data_eq)

lemma currentData_p0_eq:
  "currentData_p0 s = \<lparr>data_text_p0 = JStr (innerHTML (priv_element_p0 s)),
       data_level_p0 = JNum (number (currentLevel_p0 s))\<rparr>"
  by (simp add: currentData_p0_def get_data_p0_eq)

text \<open>The state after the getter: the looked-up values are stored, and looked up again they are the same.\<close>

lemma current_after_get:
  "currentLevel (snd (get_data s)) = currentLevel s"
  "currentAlign (snd (get_data s)) = currentAlign s"
  "priv_element (snd (get_data s)) = priv_element s"
  "settingsButtons (snd (get_data s)) = settingsButtons s"
  by (simp_all add: get_data_eq currentLevel_of_entry currentAlign_of_entry
      currentLevel_in_levels currentAlign_in_aligns)

lemma current_after_get_p0:
  "currentLevel_p0 (snd (get_data_p0 s)) = currentLevel_p0 s"
  "priv_element_p0 (snd (get_data_p0 s)) = priv_element_p0 s"
  "settingsButtons_p0 (snd (get_data_p0 s)) = settingsButtons_p0 s"
  by (simp_all add: get_data_p0_eq currentLevel_p0_of_entry currentLevel_p0_in_levels)

lemma get_data_current:
  "get_data s = (currentData s, s\<lparr>priv_data := currentData s\<rparr>)"
  by (simp add: currentData_eq get_data_eq)

lemma get_data_p0_current:
  "get_data_p0 s = (currentData_p0 s, s\<lparr>priv_data_p0 := currentData_p0 s\<rparr>)"
  by (simp add: currentData_p0_eq get_data_p0_eq)

lemma currentData_stored [simp]:
  "currentData (s\<lparr>priv_data := currentData s\<rparr>) = currentData s"
  using current_after_get [of s]
  by (simp add: get_data_current currentData_eq [of "s\<lparr>priv_data := currentData s\<rparr>"])
     (simp add: currentData_eq)

lemma currentData_p0_stored [simp]:
  "currentData_p0 (s\<lparr>priv_data_p0 := currentData_p0 s\<rparr>) = currentData_p0 s"
  using current_after_get_p0 [of s]
  by (simp add: get_data_p0_current currentData_p0_eq [of "s\<lparr>priv_data_p0 := currentData_p0 s\<rparr>"])
     (simp add: currentData_p0_eq)

text \<open>The setter on a payload that is a full, registry-valued record.\<close>

lemma set_data_record:
  assumes "field fs ''text'' = JStr t"
    and "field fs ''level'' = JNum (number l)" and "l \<in> set levels"
    and "field fs ''align'' = JStr (align a)" and "a \<in> set align_list"
  shows "\<exists>s'. set_data s (JObj fs) = Inr s' \<and>
           priv_data s' = \<lparr>data_text = JStr t, data_level = JNum (number l),
                            data_align = JStr (align a)\<rparr> \<and>
           innerHTML (priv_element s') = t \<and>
           settingsButtons s' = settingsButtons s \<and>
           currentLevel s' = l \<and> currentAlign s' = a"
proof -
  have nd: "normalizeData (JObj fs) = Inr \<lparr>data_text = JStr t, data_level = JNum (number l),
                            data_align = JStr (align a)\<rparr>"
    using assms parseInt_level(1) [OF assms(3)] level_nonzero(1) [OF assms(3)] align_nonempty [OF assms(5)]
    by (simp add: normalizeData_obj js_or_def)
  obtain s' where s': "set_data s (JObj fs) = Inr s'"
    by (simp add: set_data_obj nd Let_def)
  have pd: "priv_data s' = \<lparr>data_text = JStr t, data_level = JNum (number l),
                            data_align = JStr (align a)\<rparr>"
    using s' by (auto simp: set_data_obj nd Let_def split: if_splits)
  have "innerHTML (priv_element s') = t" "settingsButtons s' = settingsButtons s"
    using s' assms(1) by (auto simp: set_data_obj nd Let_def split: if_splits)
  moreover have "currentLevel s' = l" "currentAlign s' = a"
    using pd assms(3,5) by (simp_all add: currentLevel_of_entry currentAlign_of_entry)
  ultimately show ?thesis using s' pd by simp
qed

lemma set_data_p0_record:
  assumes "field fs ''text'' = JStr t"
    and "field fs ''level'' = JNum (number l)" and "l \<in> set levels_p0"
  shows "\<exists>s'. set_data_p0 s (JObj fs) = Inr s' \<and>
           priv_data_p0 s' = \<lparr>data_text_p0 = JStr t, data_level_p0 = JNum (number l)\<rparr> \<and>
           innerHTML (priv_element_p0 s') = t \<and>
           settingsButtons_p0 s' = settingsButtons_p0 s \<and>
           currentLevel_p0 s' = l"
proof -
  have nd: "normalizeData_p0 (JObj fs) = Inr \<lparr>data_text_p0 = JStr t, data_level_p0 = JNum (number l)\<rparr>"
    using assms parseInt_level(2) [OF assms(3)] level_nonzero(2) [OF assms(3)]
    by (simp add: normalizeData_p0_obj js_or_def)
  obtain s' where s': "set_data_p0 s (JObj fs) = Inr s'"
    by (simp add: set_data_p0_obj nd Let_def)
  have pd: "priv_data_p0 s' = \<lparr>data_text_p0 = JStr t, data_level_p0 = JNum (number l)\<rparr>"
    using s' by (auto simp: set_data_p0_obj nd Let_def split: if_splits)
  have "innerHTML (priv_element_p0 s') = t" "settingsButtons_p0 s' = settingsButtons_p0 s"
    using s' assms(1) by (auto simp: set_data_p0_obj nd Let_def split: if_splits)
  moreover have "currentLevel_p0 s' = l"
    using pd assms(3) by (simp add: currentLevel_p0_of_entry)
  ultimately show ?thesis using s' pd by simp
qed

section \<open>Merge\<close>





section \<open>Construction, then save\<close>





section \<open>Paste\<close>

lemma onPaste_eq:
  "onPaste s content =
     set_data s (JObj [(''level'', JNum (if tagName content = ''H1'' then 1
                                          else if tagName content = ''H3'' then 3 else 2)),
                       (''align'', JStr ''left''), (''text'', JStr (innerHTML content))])"
  by (simp add: onPaste_def Let_def)

lemma onPaste_p0_eq:
  "onPaste_p0 s content =
     set_data_p0 s (JObj [(''level'', JNum (if tagName content = ''H2'' then 2
                                             else if tagName content = ''H3'' then 3
                                             else if tagName content = ''H4'' then 4 else 2)),
                          (''text'', JStr (innerHTML content))])"
  by (simp add: onPaste_p0_def Let_def)

lemma onPaste_level_of:
  assumes "l \<in> set levels"
    and "(if tagName content = ''H1'' then 1 else if tagName content = ''H3'' then 3 else 2) = number l"
  shows "\<exists>s'. onPaste s content = Inr s' \<and> data_level (priv_data s') = JNum (number l) \<and>
           currentLevel s' = l \<and> innerHTML (priv_element s') = innerHTML content"
proof -
  have "\<exists>s'. set_data s (JObj [(''level'', JNum (number l)), (''align'', JStr ''left''),
                                 (''text'', JStr (innerHTML content))]) = Inr s' \<and>
           priv_data s' = \<lparr>data_text = JStr (innerHTML content), data_level = JNum (number l),
                            data_align = JStr (align \<lparr>align = ''left''\<rparr>)\<rparr> \<and>
           innerHTML (priv_element s') = innerHTML content \<and>
           settingsButtons s' = settingsButtons s \<and>
           currentLevel s' = l \<and> currentAlign s' = \<lparr>align = ''left''\<rparr>"
    by (rule set_data_record) (simp_all add: field_def assms(1) align_list_def)
  then show ?thesis
    unfolding onPaste_eq assms(2) by auto
qed

lemma onPaste_p0_level_of:
  assumes "l \<in> set levels_p0"
    and "(if tagName content = ''H2'' then 2 else if tagName content = ''H3'' then 3
          else if tagName content = ''H4'' then 4 else 2) = number l"
  shows "\<exists>s'. onPaste_p0 s content = Inr s' \<and> data_level_p0 (priv_data_p0 s') = JNum (number l) \<and>
           currentLevel_p0 s' = l \<and> innerHTML (priv_element_p0 s') = innerHTML content"
proof -
  have "\<exists>s'. set_data_p0 s (JObj [(''level'', JNum (number l)),
                                    (''text'', JStr (innerHTML content))]) = Inr s' \<and>
           priv_data_p0 s' = \<lparr>data_text_p0 = JStr (innerHTML content), data_level_p0 = JNum (number l)\<rparr> \<and>
           innerHTML (priv_element_p0 s') = innerHTML content \<and>
           settingsButtons_p0 s' = settingsButtons_p0 s \<and>
           currentLevel_p0 s' = l"
    by (rule set_data_p0_record) (simp_all add: field_def assms(1))
  then show ?thesis
    unfolding onPaste_p0_eq assms(2) by auto
qed

text \<open>
  C7: in both files, pasting an element whose tag is \<open>H3\<close> sets the level of the record
  to 3, and pasting an element whose tag is none of the tags the file claims sets it to 2.
\<close>

theorem onPaste_level:
  "(tagName content = ''H3'' \<longrightarrow>
      (\<exists>s'. onPaste s content = Inr s' \<and> data_level (priv_data s') = JNum 3 \<and>
            data_level (currentData s') = JNum 3)) \<and>
   (tagName content \<notin> set pasteConfig_tags \<longrightarrow>
      (\<exists>s'. onPaste s content = Inr s' \<and> data_level (priv_data s') = JNum 2 \<and>
            data_level (currentData s') = JNum 2)) \<and>
   (tagName content = ''H3'' \<longrightarrow>
      (\<exists>s'. onPaste_p0 p content = Inr s' \<and> data_level_p0 (priv_data_p0 s') = JNum 3 \<and>
            data_level_p0 (currentData_p0 s') = JNum 3)) \<and>
   (tagName content \<notin> set pasteConfig_tags_p0 \<longrightarrow>
      (\<exists>s'. onPaste_p0 p content = Inr s' \<and> data_level_p0 (priv_data_p0 s') = JNum 2 \<and>
            data_level_p0 (currentData_p0 s') = JNum 2))"
proof (intro conjI impI)
  assume "tagName content = ''H3''"
  then show "\<exists>s'. onPaste s content = Inr s' \<and> data_level (priv_data s') = JNum 3 \<and>
            data_level (currentData s') = JNum 3"
    using onPaste_level_of [of "\<lparr>number = 3, tag = ''H3''\<rparr>" content s]
    by (auto simp: levels_def currentData_eq)
next
  assume "tagName content \<notin> set pasteConfig_tags"
  then show "\<exists>s'. onPaste s content = Inr s' \<and> data_level (priv_data s') = JNum 2 \<and>
            data_level (currentData s') = JNum 2"
    using onPaste_level_of [of "\<lparr>number = 2, tag = ''H2''\<rparr>" content s]
    by (auto simp: levels_def currentData_eq pasteConfig_tags_def)
next
  assume "tagName content = ''H3''"
  then show "\<exists>s'. onPaste_p0 p content = Inr s' \<and> data_level_p0 (priv_data_p0 s') = JNum 3 \<and>
            data_level_p0 (currentData_p0 s') = JNum 3"
    using onPaste_p0_level_of [of "\<lparr>number = 3, tag = ''H3''\<rparr>" content p]
    by (auto simp: levels_p0_def currentData_p0_eq)
next
  assume "tagName content \<notin> set pasteConfig_tags_p0"
  then show "\<exists>s'. onPaste_p0 p content = Inr s' \<and> data_level_p0 (priv_data_p0 s') = JNum 2 \<and>
            data_level_p0 (currentData_p0 s') = JNum 2"
    using onPaste_p0_level_of [of "\<lparr>number = 2, tag = ''H2''\<rparr>" content p]
    by (auto simp: levels_p0_def currentData_p0_eq pasteConfig_tags_p0_def)
qed

theorem onPaste_level_witness:
  "tagName (exampleElement ''H3'' ''x'') = ''H3'' \<and>
   (\<exists>s'. onPaste exampleHeader (exampleElement ''H3'' ''x'') = Inr s' \<and>
         data_level (priv_data s') = JNum 3) \<and>
   (\<exists>s'. onPaste_p0 exampleHeader_p0 (exampleElement ''H3'' ''x'') = Inr s' \<and>
         data_level_p0 (priv_data_p0 s') = JNum 3) \<and>
   tagName (exampleElement ''H6'' ''x'') \<notin> set pasteConfig_tags \<and>
   tagName (exampleElement ''H6'' ''x'') \<notin> set pasteConfig_tags_p0 \<and>
   (\<exists>s'. onPaste exampleHeader (exampleElement ''H6'' ''x'') = Inr s' \<and>
         data_level (priv_data s') = JNum 2) \<and>
   (\<exists>s'. onPaste_p0 exampleHeader_p0 (exampleElement ''H6'' ''x'') = Inr s' \<and>
         data_level_p0 (priv_data_p0 s') = JNum 2)"
proof -
  have a: "tagName (exampleElement ''H3'' ''x'') = ''H3''"
    and b: "tagName (exampleElement ''H6'' ''x'') \<notin> set pasteConfig_tags"
      "tagName (exampleElement ''H6'' ''x'') \<notin> set pasteConfig_tags_p0"
    by (simp_all add: exampleElement_def pasteConfig_tags_def pasteConfig_tags_p0_def)
  show ?thesis
    using a b
      onPaste_level [of "exampleElement ''H3'' ''x''" exampleHeader exampleHeader_p0]
      onPaste_level [of "exampleElement ''H6'' ''x''" exampleHeader exampleHeader_p0]
    by blast
qed

section \<open>The settings buttons\<close>

lemma nth_appended:
  "map (\<lambda>i. (xs @ ys) ! i) [length xs ..< length xs + length ys] = ys"
  by (rule nth_equalityI) (simp_all add: nth_append)

lemma dataset_labels:
  "numToString 1 = ''1''" "numToString 2 = ''2''" "numToString 3 = ''3''"
  "parseInt (JStr ''1'') = JNum 1" "parseInt (JStr ''2'') = JNum 2" "parseInt (JStr ''3'') = JNum 3"
  by (simp_all add: js_eval)

lemma panelShape_elements:
  assumes "panelShape bs"
  obtains b1 b2 b3 b4 b5 b6 where "bs = [b1, b2, b3, b4, b5, b6]"
    "dataset_level b1 = Some ''1''" "dataset_level b2 = Some ''2''" "dataset_level b3 = Some ''3''"
    "dataset_level b4 = None" "dataset_level b5 = None" "dataset_level b6 = None"
    "dataset_align b1 = None" "dataset_align b2 = None" "dataset_align b3 = None"
    "dataset_align b4 = Some ''left''" "dataset_align b5 = Some ''center''"
    "dataset_align b6 = Some ''right''"
proof -
  from assms have
    "map dataset_level bs = [Some ''1'', Some ''2'', Some ''3'', None, None, None]"
    "map dataset_align bs = [None, None, None, Some ''left'', Some ''center'', Some ''right'']"
    by (simp_all add: panelShape_def levels_def align_list_def dataset_labels)
  then show ?thesis
    using that by (auto simp: map_eq_Cons_conv)
qed

lemma panelShape_iff:
  "panelShape bs \<longleftrightarrow>
     map dataset_level bs = [Some ''1'', Some ''2'', Some ''3'', None, None, None] \<and>
     map dataset_align bs = [None, None, None, Some ''left'', Some ''center'', Some ''right'']"
  by (simp add: panelShape_def levels_def align_list_def dataset_labels)

lemma highlight_keeps_dataset:
  "dataset_level (highlightLevel k b) = dataset_level b"
  "dataset_align (highlightLevel k b) = dataset_align b"
  "dataset_level (highlightAlign k b) = dataset_level b"
  "dataset_align (highlightAlign k b) = dataset_align b"
  by (simp_all add: highlightLevel_def highlightAlign_def split: option.splits)

lemma panelShape_highlight:
  "panelShape bs \<Longrightarrow> panelShape (map (highlightLevel k) bs)"
  "panelShape bs \<Longrightarrow> panelShape (map (highlightAlign k) bs)"
  by (simp_all add: panelShape_def highlight_keeps_dataset comp_def)

lemma highlightLevel_buttons:
  "dataset_level b = None \<Longrightarrow> highlightLevel k b = b"
  "dataset_level b = Some ''1'' \<Longrightarrow> highlightLevel k b = b\<lparr>active := (JNum 1 = k)\<rparr>"
  "dataset_level b = Some ''2'' \<Longrightarrow> highlightLevel k b = b\<lparr>active := (JNum 2 = k)\<rparr>"
  "dataset_level b = Some ''3'' \<Longrightarrow> highlightLevel k b = b\<lparr>active := (JNum 3 = k)\<rparr>"
  by (auto simp: highlightLevel_def dataset_labels)

lemma highlightAlign_buttons:
  "dataset_align b = None \<Longrightarrow> highlightAlign k b = b"
  "dataset_align b = Some ''left'' \<Longrightarrow> highlightAlign k b = b\<lparr>active := (JStr ''left'' = k)\<rparr>"
  "dataset_align b = Some ''center'' \<Longrightarrow> highlightAlign k b = b\<lparr>active := (JStr ''center'' = k)\<rparr>"
  "dataset_align b = Some ''right'' \<Longrightarrow> highlightAlign k b = b\<lparr>active := (JStr ''right'' = k)\<rparr>"
  by (auto simp: highlightAlign_def)

lemma highlightLevel_panel:
  assumes "panelShape bs" and "l \<in> set levels"
  shows "map dataset_level (highlighted (levelGroup (map (highlightLevel (JNum (number l))) bs)))
           = [Some (toString (JNum (number l)))]"
    and "alignGroup (map (highlightLevel (JNum (number l))) bs) = alignGroup bs"
proof -
  from assms(1) obtain b1 b2 b3 b4 b5 b6 where bs: "bs = [b1, b2, b3, b4, b5, b6]"
    and d: "dataset_level b1 = Some ''1''" "dataset_level b2 = Some ''2''" "dataset_level b3 = Some ''3''"
    "dataset_level b4 = None" "dataset_level b5 = None" "dataset_level b6 = None"
    "dataset_align b1 = None" "dataset_align b2 = None" "dataset_align b3 = None"
    "dataset_align b4 = Some ''left''" "dataset_align b5 = Some ''center''"
    "dataset_align b6 = Some ''right''"
    by (rule panelShape_elements)
  have m: "map (highlightLevel k) bs
     = [b1\<lparr>active := (JNum 1 = k)\<rparr>, b2\<lparr>active := (JNum 2 = k)\<rparr>, b3\<lparr>active := (JNum 3 = k)\<rparr>,
        b4, b5, b6]" for k
    by (simp add: bs d highlightLevel_buttons)
  from levels_cases [OF assms(2)]
  show "map dataset_level (highlighted (levelGroup (map (highlightLevel (JNum (number l))) bs)))
           = [Some (toString (JNum (number l)))]"
    unfolding m
    by (elim disjE) (simp_all add: levelGroup_def highlighted_def d dataset_labels)
  show "alignGroup (map (highlightLevel (JNum (number l))) bs) = alignGroup bs"
    unfolding m by (simp add: bs alignGroup_def d)
qed

lemma highlightAlign_panel:
  assumes "panelShape bs" and "a \<in> set align_list"
  shows "map dataset_align (highlighted (alignGroup (map (highlightAlign (JStr (align a))) bs)))
           = [Some (align a)]"
    and "levelGroup (map (highlightAlign (JStr (align a))) bs) = levelGroup bs"
proof -
  from assms(1) obtain b1 b2 b3 b4 b5 b6 where bs: "bs = [b1, b2, b3, b4, b5, b6]"
    and d: "dataset_level b1 = Some ''1''" "dataset_level b2 = Some ''2''" "dataset_level b3 = Some ''3''"
    "dataset_level b4 = None" "dataset_level b5 = None" "dataset_level b6 = None"
    "dataset_align b1 = None" "dataset_align b2 = None" "dataset_align b3 = None"
    "dataset_align b4 = Some ''left''" "dataset_align b5 = Some ''center''"
    "dataset_align b6 = Some ''right''"
    by (rule panelShape_elements)
  have m: "map (highlightAlign k) bs
     = [b1, b2, b3, b4\<lparr>active := (JStr ''left'' = k)\<rparr>, b5\<lparr>active := (JStr ''center'' = k)\<rparr>,
        b6\<lparr>active := (JStr ''right'' = k)\<rparr>]" for k
    by (simp add: bs d highlightAlign_buttons)
  from align_cases [OF assms(2)]
  show "map dataset_align (highlighted (alignGroup (map (highlightAlign (JStr (align a))) bs)))
           = [Some (align a)]"
    unfolding m
    by (elim disjE) (simp_all add: alignGroup_def highlighted_def d)
  show "levelGroup (map (highlightAlign (JStr (align a))) bs) = levelGroup bs"
    unfolding m by (simp add: bs levelGroup_def d)
qed

lemma setLevel_buttons:
  assumes "l \<in> set levels"
  shows "\<exists>s'. setLevel s (JNum (number l)) = Inr s' \<and>
           settingsButtons s' = map (highlightLevel (JNum (number l))) (settingsButtons s) \<and>
           currentLevel s' = l \<and> currentAlign s' = currentAlign s"
proof -
  let ?fs = "[(''level'', JNum (number l)), (''align'', data_align (currentData s)),
              (''text'', data_text (currentData s))]"
  have "\<exists>s'. set_data (s\<lparr>priv_data := currentData s\<rparr>) (JObj ?fs) = Inr s' \<and>
           priv_data s' = \<lparr>data_text = JStr (innerHTML (priv_element s)),
                            data_level = JNum (number l),
                            data_align = JStr (align (currentAlign s))\<rparr> \<and>
           innerHTML (priv_element s') = innerHTML (priv_element s) \<and>
           settingsButtons s' = settingsButtons (s\<lparr>priv_data := currentData s\<rparr>) \<and>
           currentLevel s' = l \<and> currentAlign s' = currentAlign s"
    by (rule set_data_record)
       (simp_all add: field_def currentData_eq assms currentAlign_in_aligns)
  then obtain s' where s': "set_data (s\<lparr>priv_data := currentData s\<rparr>) (JObj ?fs) = Inr s'"
    "settingsButtons s' = settingsButtons s" "currentLevel s' = l" "currentAlign s' = currentAlign s"
    by auto
  have "setLevel s (JNum (number l))
          = Inr (s'\<lparr>settingsButtons := map (highlightLevel (JNum (number l))) (settingsButtons s')\<rparr>)"
    using s'(1) by (simp add: setLevel_def get_data_current andThen_def)
  moreover have "currentLevel (s'\<lparr>settingsButtons := bs\<rparr>) = currentLevel s'"
    "currentAlign (s'\<lparr>settingsButtons := bs\<rparr>) = currentAlign s'" for bs
    by (simp_all add: currentLevel_def currentAlign_def)
  ultimately show ?thesis using s'(2,3,4) by simp
qed

lemma setAlign_buttons:
  assumes "a \<in> set align_list"
  shows "\<exists>s'. setAlign s (JStr (align a)) = Inr s' \<and>
           settingsButtons s' = map (highlightAlign (JStr (align a))) (settingsButtons s) \<and>
           currentLevel s' = currentLevel s \<and> currentAlign s' = a"
proof -
  let ?fs = "[(''align'', JStr (align a)), (''level'', data_level (currentData s)),
              (''text'', data_text (currentData s))]"
  have "\<exists>s'. set_data (s\<lparr>priv_data := currentData s\<rparr>) (JObj ?fs) = Inr s' \<and>
           priv_data s' = \<lparr>data_text = JStr (innerHTML (priv_element s)),
                            data_level = JNum (number (currentLevel s)),
                            data_align = JStr (align a)\<rparr> \<and>
           innerHTML (priv_element s') = innerHTML (priv_element s) \<and>
           settingsButtons s' = settingsButtons (s\<lparr>priv_data := currentData s\<rparr>) \<and>
           currentLevel s' = currentLevel s \<and> currentAlign s' = a"
    by (rule set_data_record)
       (simp_all add: field_def currentData_eq assms currentLevel_in_levels)
  then obtain s' where s': "set_data (s\<lparr>priv_data := currentData s\<rparr>) (JObj ?fs) = Inr s'"
    "settingsButtons s' = settingsButtons s" "currentLevel s' = currentLevel s" "currentAlign s' = a"
    by auto
  have "setAlign s (JStr (align a))
          = Inr (s'\<lparr>settingsButtons := map (highlightAlign (JStr (align a))) (settingsButtons s')\<rparr>)"
    using s'(1) by (simp add: setAlign_def get_data_current andThen_def)
  moreover have "currentLevel (s'\<lparr>settingsButtons := bs\<rparr>) = currentLevel s'"
    "currentAlign (s'\<lparr>settingsButtons := bs\<rparr>) = currentAlign s'" for bs
    by (simp_all add: currentLevel_def currentAlign_def)
  ultimately show ?thesis using s'(2,3,4) by simp
qed

lemma made_buttons:
  "map (levelButton s) levels @ map (alignButton s) align_list =
     [\<lparr>active = (number (currentLevel s) = 1), dataset_level = Some ''1'', dataset_align = None,
        button_textAlign = priv_CSS_align s\<rparr>,
      \<lparr>active = (number (currentLevel s) = 2), dataset_level = Some ''2'', dataset_align = None,
        button_textAlign = priv_CSS_align s\<rparr>,
      \<lparr>active = (number (currentLevel s) = 3), dataset_level = Some ''3'', dataset_align = None,
        button_textAlign = priv_CSS_align s\<rparr>,
      \<lparr>active = (align (currentAlign s) = ''left''), dataset_level = None,
        dataset_align = Some ''left'', button_textAlign = JUndefined\<rparr>,
      \<lparr>active = (align (currentAlign s) = ''center''), dataset_level = None,
        dataset_align = Some ''center'', button_textAlign = JUndefined\<rparr>,
      \<lparr>active = (align (currentAlign s) = ''right''), dataset_level = None,
        dataset_align = Some ''right'', button_textAlign = JUndefined\<rparr>]"
  by (simp add: levels_def align_list_def levelButton_def alignButton_def dataset_labels)

lemma made_panel:
  "panelShape (map (levelButton s) levels @ map (alignButton s) align_list)"
  "length (highlighted (levelGroup (map (levelButton s) levels @ map (alignButton s) align_list))) = 1"
  "length (highlighted (alignGroup (map (levelButton s) levels @ map (alignButton s) align_list))) = 1"
proof -
  show "panelShape (map (levelButton s) levels @ map (alignButton s) align_list)"
    unfolding made_buttons by (simp add: panelShape_iff)
  from levels_cases [OF currentLevel_in_levels [of s]]
  show "length (highlighted (levelGroup (map (levelButton s) levels @ map (alignButton s) align_list))) = 1"
    unfolding made_buttons
    by (elim disjE) (simp_all add: levelGroup_def highlighted_def)
  from align_cases [OF currentAlign_in_aligns [of s]]
  show "length (highlighted (alignGroup (map (levelButton s) levels @ map (alignButton s) align_list))) = 1"
    unfolding made_buttons
    by (elim disjE) (simp_all add: alignGroup_def highlighted_def)
qed

lemma renderSettings_eq:
  "renderSettings s =
     ([length (settingsButtons s) ..<
         length (settingsButtons s) + length (map (levelButton s) levels @ map (alignButton s) align_list)],
      s\<lparr>settingsButtons := settingsButtons s @ (map (levelButton s) levels @ map (alignButton s) align_list)\<rparr>)"
  by (simp add: renderSettings_def Let_def)

lemma renderSettings_panel:
  assumes "renderSettings s0 = (holder, s1)"
  shows "panelOK s1 holder"
proof -
  let ?made = "map (levelButton s0) levels @ map (alignButton s0) align_list"
  have h: "holder = [length (settingsButtons s0) ..< length (settingsButtons s0) + length ?made]"
    and s1: "settingsButtons s1 = settingsButtons s0 @ ?made"
    using assms unfolding renderSettings_eq by auto
  have "panelButtons s1 holder = ?made"
    unfolding panelButtons_def s1 h by (rule nth_appended)
  moreover have "\<forall>i \<in> set holder. i < length (settingsButtons s1)"
    unfolding s1 h by simp
  ultimately show ?thesis
    using made_panel [of s0] by (simp add: panelOK_def)
qed

lemma renderSettings_keeps:
  assumes "panelOK s holder"
  shows "panelOK (snd (renderSettings s)) holder"
proof -
  from assms have "\<forall>i \<in> set holder. i < length (settingsButtons s)"
    by (simp add: panelOK_def)
  then have "panelButtons (snd (renderSettings s)) holder = panelButtons s holder"
    unfolding renderSettings_eq panelButtons_def by (simp add: nth_append)
  with assms show ?thesis
    unfolding renderSettings_eq by (auto simp: panelOK_def)
qed

lemma panelButtons_mapped:
  assumes "\<forall>i \<in> set holder. i < length (settingsButtons s)"
    and "settingsButtons s' = map f (settingsButtons s)"
  shows "panelButtons s' holder = map f (panelButtons s holder)"
  using assms by (simp add: panelButtons_def)

lemma click_level:
  assumes "panelOK s holder" and "l \<in> set levels"
  shows "\<exists>s'. setLevel s (JNum (number l)) = Inr s' \<and> panelOK s' holder \<and>
           map dataset_level (highlighted (levelGroup (panelButtons s' holder)))
             = [Some (toString (JNum (number l)))] \<and>
           alignGroup (panelButtons s' holder) = alignGroup (panelButtons s holder)"
proof -
  from setLevel_buttons [OF assms(2), of s] obtain s' where
    s': "setLevel s (JNum (number l)) = Inr s'"
    "settingsButtons s' = map (highlightLevel (JNum (number l))) (settingsButtons s)"
    by blast
  from assms(1) have inr: "\<forall>i \<in> set holder. i < length (settingsButtons s)"
    and shape: "panelShape (panelButtons s holder)"
    and al: "length (highlighted (alignGroup (panelButtons s holder))) = 1"
    by (simp_all add: panelOK_def)
  have pb: "panelButtons s' holder = map (highlightLevel (JNum (number l))) (panelButtons s holder)"
    using inr s'(2) by (rule panelButtons_mapped)
  have one: "map dataset_level (highlighted (levelGroup (panelButtons s' holder)))
             = [Some (toString (JNum (number l)))]"
    and same: "alignGroup (panelButtons s' holder) = alignGroup (panelButtons s holder)"
    unfolding pb using highlightLevel_panel [OF shape assms(2)] by simp_all
  from one have "length (map dataset_level (highlighted (levelGroup (panelButtons s' holder)))) = 1"
    by simp
  then have "length (highlighted (levelGroup (panelButtons s' holder))) = 1"
    by simp
  moreover have "panelShape (panelButtons s' holder)"
    unfolding pb using shape by (rule panelShape_highlight)
  moreover have "\<forall>i \<in> set holder. i < length (settingsButtons s')"
    using inr s'(2) by simp
  ultimately have "panelOK s' holder"
    using al same by (simp add: panelOK_def)
  with s'(1) one same show ?thesis by (intro exI [of _ s']) simp
qed

lemma click_align:
  assumes "panelOK s holder" and "a \<in> set align_list"
  shows "\<exists>s'. setAlign s (JStr (align a)) = Inr s' \<and> panelOK s' holder \<and>
           map dataset_align (highlighted (alignGroup (panelButtons s' holder))) = [Some (align a)] \<and>
           levelGroup (panelButtons s' holder) = levelGroup (panelButtons s holder)"
proof -
  from setAlign_buttons [OF assms(2), of s] obtain s' where
    s': "setAlign s (JStr (align a)) = Inr s'"
    "settingsButtons s' = map (highlightAlign (JStr (align a))) (settingsButtons s)"
    by blast
  from assms(1) have inr: "\<forall>i \<in> set holder. i < length (settingsButtons s)"
    and shape: "panelShape (panelButtons s holder)"
    and lv: "length (highlighted (levelGroup (panelButtons s holder))) = 1"
    by (simp_all add: panelOK_def)
  have pb: "panelButtons s' holder = map (highlightAlign (JStr (align a))) (panelButtons s holder)"
    using inr s'(2) by (rule panelButtons_mapped)
  have one: "map dataset_align (highlighted (alignGroup (panelButtons s' holder))) = [Some (align a)]"
    and same: "levelGroup (panelButtons s' holder) = levelGroup (panelButtons s holder)"
    unfolding pb using highlightAlign_panel [OF shape assms(2)] by simp_all
  from one have "length (map dataset_align (highlighted (alignGroup (panelButtons s' holder)))) = 1"
    by simp
  then have "length (highlighted (alignGroup (panelButtons s' holder))) = 1"
    by simp
  moreover have "panelShape (panelButtons s' holder)"
    unfolding pb using shape by (rule panelShape_highlight)
  moreover have "\<forall>i \<in> set holder. i < length (settingsButtons s')"
    using inr s'(2) by simp
  ultimately have "panelOK s' holder"
    using lv same by (simp add: panelOK_def)
  with s'(1) one same show ?thesis by (intro exI [of _ s']) simp
qed

lemma interact_keeps:
  assumes "panelOK s holder" and "offered x"
  shows "\<exists>s'. interact s x = Inr s' \<and> panelOK s' holder"
proof (cases x)
  case OpenSettings
  with renderSettings_keeps [OF assms(1)] show ?thesis by simp
next
  case (ClickLevel l)
  with assms(2) click_level [OF assms(1), of l] show ?thesis by auto
next
  case (ClickAlign a)
  with assms(2) click_align [OF assms(1), of a] show ?thesis by auto
qed

lemma interactions_keep:
  assumes "panelOK s holder" and "\<forall>x \<in> set xs. offered x"
  shows "\<exists>s'. interactions s xs = Inr s' \<and> panelOK s' holder"
  using assms
proof (induction xs arbitrary: s)
  case Nil
  then show ?case by simp
next
  case (Cons x xs)
  from Cons.prems have "offered x" by simp
  from interact_keeps [OF Cons.prems(1) this] obtain s1 where
    s1: "interact s x = Inr s1" "panelOK s1 holder" by blast
  from Cons.IH [OF s1(2)] Cons.prems(2) obtain s' where
    "interactions s1 xs = Inr s'" "panelOK s' holder" by auto
  with s1(1) show ?case by (simp add: andThen_def)
qed

text \<open>
  C8: take the panel that a call of \<open>renderSettings\<close> returns, and let the user interact
  with the settings in any way (clicks on level and alignment buttons, opening the settings
  again). Then exactly one button of the panel's level group and exactly one button of its
  alignment group are highlighted. After a further \<open>setLevel(k)\<close>, for a level \<open>k\<close> of the
  registry, the one highlighted level button is the one that stores \<open>k\<close> in its
  \<open>dataset\<close>, and the alignment group is as it was; after a further \<open>setAlign(a)\<close>, for an
  alignment \<open>a\<close> of the registry, the one highlighted alignment button is the one that stores
  \<open>a\<close>, and the level group is as it was.
\<close>

theorem settings_highlight:
  assumes "renderSettings s0 = (holder, s1)" and "\<forall>x \<in> set xs. offered x"
  shows "\<exists>s. interactions s1 xs = Inr s \<and>
           length (highlighted (levelGroup (panelButtons s holder))) = 1 \<and>
           length (highlighted (alignGroup (panelButtons s holder))) = 1 \<and>
           (\<forall>l \<in> set levels. \<exists>s'. setLevel s (JNum (number l)) = Inr s' \<and>
               map dataset_level (highlighted (levelGroup (panelButtons s' holder)))
                 = [Some (toString (JNum (number l)))] \<and>
               alignGroup (panelButtons s' holder) = alignGroup (panelButtons s holder)) \<and>
           (\<forall>a \<in> set align_list. \<exists>s'. setAlign s (JStr (align a)) = Inr s' \<and>
               map dataset_align (highlighted (alignGroup (panelButtons s' holder)))
                 = [Some (align a)] \<and>
               levelGroup (panelButtons s' holder) = levelGroup (panelButtons s holder))"
proof -
  from assms(1) have "panelOK s1 holder" by (rule renderSettings_panel)
  from interactions_keep [OF this assms(2)] obtain s where
    s: "interactions s1 xs = Inr s" "panelOK s holder" by blast
  from s(2) have one: "length (highlighted (levelGroup (panelButtons s holder))) = 1"
    "length (highlighted (alignGroup (panelButtons s holder))) = 1"
    by (simp_all add: panelOK_def)
  have lv: "\<forall>l \<in> set levels. \<exists>s'. setLevel s (JNum (number l)) = Inr s' \<and>
               map dataset_level (highlighted (levelGroup (panelButtons s' holder)))
                 = [Some (toString (JNum (number l)))] \<and>
               alignGroup (panelButtons s' holder) = alignGroup (panelButtons s holder)"
  proof
    fix l assume "l \<in> set levels"
    from click_level [OF s(2) this] obtain s' where
      "setLevel s (JNum (number l)) = Inr s'"
      "map dataset_level (highlighted (levelGroup (panelButtons s' holder)))
                 = [Some (toString (JNum (number l)))]"
      "alignGroup (panelButtons s' holder) = alignGroup (panelButtons s holder)"
      by (elim exE conjE)
    then show "\<exists>s'. setLevel s (JNum (number l)) = Inr s' \<and>
               map dataset_level (highlighted (levelGroup (panelButtons s' holder)))
                 = [Some (toString (JNum (number l)))] \<and>
               alignGroup (panelButtons s' holder) = alignGroup (panelButtons s holder)"
      by (intro exI [of _ s'] conjI)
  qed
  have al: "\<forall>a \<in> set align_list. \<exists>s'. setAlign s (JStr (align a)) = Inr s' \<and>
               map dataset_align (highlighted (alignGroup (panelButtons s' holder)))
                 = [Some (align a)] \<and>
               levelGroup (panelButtons s' holder) = levelGroup (panelButtons s holder)"
  proof
    fix a assume "a \<in> set align_list"
    from click_align [OF s(2) this] obtain s' where
      "setAlign s (JStr (align a)) = Inr s'"
      "map dataset_align (highlighted (alignGroup (panelButtons s' holder))) = [Some (align a)]"
      "levelGroup (panelButtons s' holder) = levelGroup (panelButtons s holder)"
      by (elim exE conjE)
    then show "\<exists>s'. setAlign s (JStr (align a)) = Inr s' \<and>
               map dataset_align (highlighted (alignGroup (panelButtons s' holder)))
                 = [Some (align a)] \<and>
               levelGroup (panelButtons s' holder) = levelGroup (panelButtons s holder)"
      by (intro exI [of _ s'] conjI)
  qed
  from s(1) one lv al show ?thesis
    by (intro exI [of _ s] conjI)
qed

theorem settings_highlight_witness:
  "renderSettings exampleHeader = (fst (renderSettings exampleHeader), snd (renderSettings exampleHeader)) \<and>
   offered (ClickLevel \<lparr>number = 3, tag = ''H3''\<rparr>) \<and>
   offered OpenSettings \<and>
   offered (ClickAlign \<lparr>align = ''center''\<rparr>) \<and>
   (\<exists>s. interactions (snd (renderSettings exampleHeader))
           [ClickLevel \<lparr>number = 3, tag = ''H3''\<rparr>, OpenSettings,
            ClickAlign \<lparr>align = ''center''\<rparr>] = Inr s \<and>
        length (highlighted (levelGroup (panelButtons s (fst (renderSettings exampleHeader))))) = 1 \<and>
        length (highlighted (alignGroup (panelButtons s (fst (renderSettings exampleHeader))))) = 1)"
proof -
  have r: "renderSettings exampleHeader = (fst (renderSettings exampleHeader), snd (renderSettings exampleHeader))"
    by simp
  have o: "offered (ClickLevel \<lparr>number = 3, tag = ''H3''\<rparr>)" "offered OpenSettings"
    "offered (ClickAlign \<lparr>align = ''center''\<rparr>)"
    by (simp_all add: levels_def align_list_def)
  then have "\<forall>x \<in> set [ClickLevel \<lparr>number = 3, tag = ''H3''\<rparr>, OpenSettings,
            ClickAlign \<lparr>align = ''center''\<rparr>]. offered x"
    by simp
  from settings_highlight [OF r this] obtain s where
    "interactions (snd (renderSettings exampleHeader))
           [ClickLevel \<lparr>number = 3, tag = ''H3''\<rparr>, OpenSettings,
            ClickAlign \<lparr>align = ''center''\<rparr>] = Inr s"
    "length (highlighted (levelGroup (panelButtons s (fst (renderSettings exampleHeader))))) = 1"
    "length (highlighted (alignGroup (panelButtons s (fst (renderSettings exampleHeader))))) = 1"
    by (elim exE conjE)
  with r o show ?thesis
    by (intro conjI exI [of _ s])
qed

text \<open>
  The list \<open>settingsButtons\<close> itself is never emptied: opened twice, it holds the buttons
  of two panels, and a click highlights one level button in each.
\<close>

lemma made_again:
  "levelButton (s\<lparr>settingsButtons := bs\<rparr>) = levelButton s"
  "alignButton (s\<lparr>settingsButtons := bs\<rparr>) = alignButton s"
  by (rule ext, simp add: levelButton_def alignButton_def currentLevel_def currentAlign_def)+

lemma settingsButtons_of_two_panels:
  "\<exists>s. interactions exampleHeader [OpenSettings, OpenSettings, ClickLevel \<lparr>number = 3, tag = ''H3''\<rparr>]
          = Inr s \<and>
       length (settingsButtons s) = 12 \<and>
       length (highlighted (levelGroup (settingsButtons s))) = 2"
proof -
  let ?l = "\<lparr>number = 3, tag = ''H3''\<rparr>"
  define made where "made = map (levelButton exampleHeader) levels @ map (alignButton exampleHeader) align_list"
  define s2 where "s2 = snd (renderSettings (snd (renderSettings exampleHeader)))"
  have l: "?l \<in> set levels" by (simp add: levels_def)
  from setLevel_buttons [OF l, of s2] obtain s where
    s: "setLevel s2 (JNum 3) = Inr s"
    "settingsButtons s = map (highlightLevel (JNum 3)) (settingsButtons s2)"
    by auto
  have e: "settingsButtons exampleHeader = []"
    by (simp add: exampleHeader_def)
  have "settingsButtons s2 = made @ made"
    unfolding s2_def renderSettings_eq made_def by (simp add: made_again e)
  then have bs: "settingsButtons s = map (highlightLevel (JNum 3)) made @ map (highlightLevel (JNum 3)) made"
    using s(2) by simp
  have m: "map (highlightLevel (JNum 3)) made =
     [\<lparr>active = False, dataset_level = Some ''1'', dataset_align = None,
        button_textAlign = priv_CSS_align exampleHeader\<rparr>,
      \<lparr>active = False, dataset_level = Some ''2'', dataset_align = None,
        button_textAlign = priv_CSS_align exampleHeader\<rparr>,
      \<lparr>active = True, dataset_level = Some ''3'', dataset_align = None,
        button_textAlign = priv_CSS_align exampleHeader\<rparr>,
      \<lparr>active = (align (currentAlign exampleHeader) = ''left''), dataset_level = None,
        dataset_align = Some ''left'', button_textAlign = JUndefined\<rparr>,
      \<lparr>active = (align (currentAlign exampleHeader) = ''center''), dataset_level = None,
        dataset_align = Some ''center'', button_textAlign = JUndefined\<rparr>,
      \<lparr>active = (align (currentAlign exampleHeader) = ''right''), dataset_level = None,
        dataset_align = Some ''right'', button_textAlign = JUndefined\<rparr>]"
    unfolding made_def made_buttons by (simp add: highlightLevel_buttons)
  have "length (settingsButtons s) = 12 \<and>
       length (highlighted (levelGroup (settingsButtons s))) = 2"
    unfolding bs m by (simp add: levelGroup_def highlighted_def)
  moreover have "interactions exampleHeader [OpenSettings, OpenSettings, ClickLevel ?l] = Inr s"
    using s(1) by (simp add: andThen_def s2_def)
  ultimately show ?thesis by blast
qed

end
